theory Spec2Isabelle
  imports Complex_Main "HOL-Library.Multiset" "HOL-Library.Monad_Syntax"
begin

section \<open>Numbers and points\<close>

text \<open>
  The drawing code computes with C++ \<open>double\<close> and \<open>int\<close>.  Throughout this theory a
  \<open>double\<close> is idealised as a real number (no rounding, no NaN, no infinities) and an
  \<open>int\<close> as a mathematical integer; every statement below is a statement about that
  idealisation of \<open>Code/GraphMol/MolDraw2D/MolDraw2D.cpp\<close>.
\<close>

text \<open>
  Modelled from the spec: \<open>Point2D\<close> (Geometry/point.h) is not part of the source file; it
  is the usual pair of coordinates with componentwise sum and difference and
  multiplication by a scalar.
\<close>

datatype Point2D = Point2D (ptx: real) (pty: real)

definition padd :: "Point2D \<Rightarrow> Point2D \<Rightarrow> Point2D" where
  "padd a b = Point2D (ptx a + ptx b) (pty a + pty b)"

definition psub :: "Point2D \<Rightarrow> Point2D \<Rightarrow> Point2D" where
  "psub a b = Point2D (ptx a - ptx b) (pty a - pty b)"

definition pmul :: "Point2D \<Rightarrow> real \<Rightarrow> Point2D" where
  "pmul a k = Point2D (ptx a * k) (pty a * k)"

definition pdiv :: "Point2D \<Rightarrow> real \<Rightarrow> Point2D" where
  "pdiv a k = Point2D (ptx a / k) (pty a / k)"

text \<open>
  \<open>Point2D::length\<close>, \<open>lengthSq\<close>, \<open>dotProduct\<close>, \<open>normalize\<close> and \<open>directionVector\<close>.
  Normalising divides by the length; for a vector of length zero the source divides by
  zero and carries NaN coordinates on, which the idealisation does not have: that case is
  the value \<open>None\<close>.
\<close>

definition lengthSq :: "Point2D \<Rightarrow> real" where
  "lengthSq p = ptx p * ptx p + pty p * pty p"

definition plength :: "Point2D \<Rightarrow> real" where
  "plength p = sqrt (lengthSq p)"

definition dotProduct :: "Point2D \<Rightarrow> Point2D \<Rightarrow> real" where
  "dotProduct a b = ptx a * ptx b + pty a * pty b"

definition normalize :: "Point2D \<Rightarrow> Point2D option" where
  "normalize p = (if plength p = 0 then None else Some (pdiv p (plength p)))"

definition directionVector :: "Point2D \<Rightarrow> Point2D \<Rightarrow> Point2D option" where
  "directionVector this other = normalize (psub other this)"

text \<open>
  \<open>std::vector::operator[]\<close> does not check its index; reading past the end of the
  coordinate array is undefined behaviour, in the model the value \<open>None\<close>.
\<close>

definition vecAt :: "'a list \<Rightarrow> nat \<Rightarrow> 'a option" where
  "vecAt xs i = (if i < length xs then Some (xs ! i) else None)"

section \<open>Scale state and the coordinate transform\<close>

text \<open>
  The fields of \<open>MolDraw2D\<close> that make up the transform between molecule space and
  device space, with the types the class gives them (\<open>double\<close> or \<open>int\<close>).  The
  members are written without the trailing underscore of the source (\<open>scale_\<close> is
  \<open>scale\<close>, and so on).
\<close>

record ScaleState =
  scale :: real
  x_min :: real
  y_min :: real
  x_range :: real
  y_range :: real
  x_trans :: real
  y_trans :: real
  x_offset :: int
  y_offset :: int
  panel_height :: int
  legend_height :: int

definition panelHeight :: "'a ScaleState_scheme \<Rightarrow> int" where
  "panelHeight d = panel_height d"

text \<open>\<open>MolDraw2D::getDrawCoords(const Point2D &)\<close>, statement by statement.\<close>

definition getDrawCoords :: "'a ScaleState_scheme \<Rightarrow> Point2D \<Rightarrow> Point2D" where
  "getDrawCoords d mol_cds =
     (let x0 = scale d * (ptx mol_cds - x_min d + x_trans d);
          y0 = scale d * (pty mol_cds - y_min d + y_trans d);
          x1 = x0 + real_of_int (x_offset d);
          y1 = y0 - real_of_int (y_offset d);
          y2 = real_of_int (panelHeight d) - real_of_int (legend_height d) - y1
      in Point2D x1 y2)"

text \<open>\<open>MolDraw2D::getAtomCoords(const pair<double, double> &)\<close>.\<close>

definition getAtomCoords :: "'a ScaleState_scheme \<Rightarrow> real \<times> real \<Rightarrow> Point2D" where
  "getAtomCoords d screen_cds =
     (let screen_x = fst screen_cds - real_of_int (x_offset d);
          screen_y = snd screen_cds - real_of_int (y_offset d);
          x = screen_x / scale d + x_min d - x_trans d;
          y = y_min d - y_trans d
              - (screen_y - real_of_int (panelHeight d) + real_of_int (legend_height d)) / scale d
      in Point2D x y)"



section \<open>The scale and layout engine\<close>

text \<open>
  Modelled from the spec: a drawn shape (\<open>MolDrawShape\<close>, declared in a header that is
  not part of the source file) is an ordered point list tagged with a shape kind; an
  annotation (\<open>AnnotationType\<close>) is a text with a target rectangle (\<open>StringRect\<close>: position
  \<open>trans_\<close>, \<open>width_\<close>, \<open>height_\<close> and the integer \<open>clash_score_\<close>), an alignment and a
  text-scaling flag.  The fields are named \<open>rtrans\<close>, \<open>rwidth\<close>, \<open>rheight\<close>,
  \<open>clash_score\<close>, \<open>note_text\<close>, \<open>rect\<close>, \<open>align\<close>.
\<close>

datatype MolDrawShapeType = PolyLine | Ellipse | Arrow

record MolDrawShape =
  shapeType :: MolDrawShapeType
  points :: "Point2D list"

datatype TextAlignType = START | MIDDLE | END'

record StringRect =
  rtrans :: Point2D
  rwidth :: real
  rheight :: real
  clash_score :: int

record AnnotationType =
  note_text :: string
  rect :: StringRect
  align :: TextAlignType

text \<open>The drawing options that the scale computation reads.\<close>

record ScaleOptions =
  padding :: real
  fixedBondLength :: real
  fixedScale :: real

text \<open>\<open>numeric_limits<double>::max()\<close>.\<close>

definition DBL_MAX :: real where
  "DBL_MAX = (2 ^ 53 - 1) * 2 ^ 971"

text \<open>
  The body shared by the three bounding-box loops of \<open>calculateScale\<close>: one point
  updates \<open>x_min_\<close>, \<open>y_min_\<close> and the locals \<open>x_max\<close>, \<open>y_max\<close>.  The box is the tuple
  \<open>(x_min, y_min, x_max, y_max)\<close>.
\<close>

type_synonym box = "real \<times> real \<times> real \<times> real"

definition growBox :: "box \<Rightarrow> Point2D \<Rightarrow> box" where
  "growBox b pt =
     (case b of (xmin, ymin, xmax, ymax) \<Rightarrow>
        (min (ptx pt) xmin, min (pty pt) ymin, max (ptx pt) xmax, max (pty pt) ymax))"

definition growBoxAll :: "box \<Rightarrow> Point2D list \<Rightarrow> box" where
  "growBoxAll b pts = foldl growBox b pts"

text \<open>
  \<open>calculateScale\<close>, first part: the bounding box of the atom coordinates, extended by
  the points of the pre and post shapes of the active molecule.
\<close>

definition boundingBox :: "Point2D list \<Rightarrow> MolDrawShape list \<Rightarrow> MolDrawShape list \<Rightarrow> box" where
  "boundingBox cds pre post =
     (let b0 = (DBL_MAX, DBL_MAX, - DBL_MAX, - DBL_MAX);
          b1 = growBoxAll b0 cds;
          b2 = foldl (\<lambda>b shp. growBoxAll b (points shp)) b1 pre;
          b3 = foldl (\<lambda>b shp. growBoxAll b (points shp)) b2 post
      in b3)"

text \<open>
  \<open>calculateScale\<close>, second part: the spans, the treatment of a span below \<open>1e-4\<close>, and
  the first trial scale.  (The locals \<open>x_max\<close> and \<open>y_max\<close> are not read again after
  this point, so they are not returned.)
\<close>

definition initialSpans :: "'a ScaleState_scheme \<Rightarrow> box \<Rightarrow> 'a ScaleState_scheme" where
  "initialSpans d b =
     (case b of (xmin, ymin, xmax, ymax) \<Rightarrow>
        (let xr = xmax - xmin;
             yr = ymax - ymin;
             d1 = (if xr < 1/10000 then d\<lparr>x_range := 2, x_min := xmin - 1\<rparr>
                   else d\<lparr>x_range := xr, x_min := xmin\<rparr>);
             d2 = (if yr < 1/10000 then d1\<lparr>y_range := 2, y_min := ymin - 1\<rparr>
                   else d1\<lparr>y_range := yr, y_min := ymin\<rparr>)
         in d2))"

definition fitScale :: "int \<Rightarrow> int \<Rightarrow> 'a ScaleState_scheme \<Rightarrow> real" where
  "fitScale width height d =
     min (real_of_int width / x_range d) (real_of_int height / y_range d)"

text \<open>
  The pattern shared by \<open>adjustScaleForAtomLabels\<close>, \<open>adjustScaleForRadicals\<close> and
  \<open>adjustScaleForAnnotation\<close>: starting from \<open>x_max = x_min_ + x_range_\<close>, every
  footprint \<open>(this_x_min, this_y_min, this_x_max, this_y_max)\<close> widens the box, and the
  ranges become the larger of the new span and the old range.
\<close>

definition widen :: "box \<Rightarrow> box \<Rightarrow> box" where
  "widen b f =
     (case b of (xmin, ymin, xmax, ymax) \<Rightarrow>
      case f of (fxmin, fymin, fxmax, fymax) \<Rightarrow>
        (min xmin fxmin, min ymin fymin, max xmax fxmax, max ymax fymax))"

definition expandByFootprints :: "'a ScaleState_scheme \<Rightarrow> box list \<Rightarrow> 'a ScaleState_scheme" where
  "expandByFootprints d fs =
     (case foldl widen (x_min d, y_min d, x_min d + x_range d, y_min d + y_range d) fs of
        (xmin, ymin, xmax, ymax) \<Rightarrow>
          d\<lparr>x_min := xmin, y_min := ymin,
            x_range := max (xmax - xmin) (x_range d),
            y_range := max (ymax - ymin) (y_range d)\<rparr>)"

text \<open>\<open>adjustScaleForAnnotation\<close>: the footprint of a note depends on its alignment.\<close>

definition noteFootprint :: "AnnotationType \<Rightarrow> box" where
  "noteFootprint pr =
     (let r = rect pr; tx = ptx (rtrans r); ty = pty (rtrans r);
          xmax = (if align pr = START then tx + rwidth r
                  else if align pr = END' then tx
                  else tx + rwidth r / 2);
          xmin = (if align pr = START then tx
                  else if align pr = END' then tx - rwidth r
                  else tx - rwidth r / 2)
      in (xmin, ty - rheight r / 2, xmax, ty + rheight r / 2))"

definition adjustScaleForAnnotation ::
  "'a ScaleState_scheme \<Rightarrow> AnnotationType list \<Rightarrow> 'a ScaleState_scheme" where
  "adjustScaleForAnnotation d notes = expandByFootprints d (map noteFootprint notes)"

text \<open>
  The footprints of the atom labels and highlight ellipses and those of the radical
  marks come from the text metrics service at the current font scale; that service is
  outside the source file, so the two families are parameters \<open>labels\<close> and \<open>radicals\<close>
  of the model, functions of the drawer state (which holds the scale).  One pass of the
  body of the \<open>while\<close> loop of \<open>calculateScale\<close>:
\<close>

definition adjustOnce ::
  "('a ScaleState_scheme \<Rightarrow> box list) \<Rightarrow> ('a ScaleState_scheme \<Rightarrow> box list) \<Rightarrow> bool \<Rightarrow>
   AnnotationType list \<Rightarrow> 'a ScaleState_scheme \<Rightarrow> 'a ScaleState_scheme" where
  "adjustOnce labels radicals supportsAnnotations notes d =
     (let d1 = expandByFootprints d (labels d);
          d2 = expandByFootprints d1 (radicals d1);
          d3 = (if supportsAnnotations \<and> notes \<noteq> [] then adjustScaleForAnnotation d2 notes else d2)
      in d3)"

text \<open>
  The \<open>while (scale_ > 1e-4)\<close> loop.  It ends when the scale is at most \<open>1e-4\<close> or
  changes by less than \<open>0.1\<close> in one pass; a run that never ends is the value \<open>None\<close>.
\<close>

partial_function (option) fitLoop ::
  "('a ScaleState_scheme \<Rightarrow> 'a ScaleState_scheme) \<Rightarrow> int \<Rightarrow> int \<Rightarrow>
   'a ScaleState_scheme \<Rightarrow> 'a ScaleState_scheme option" where
  "fitLoop adjust width height d =
     (if scale d > 1/10000 then
        (let d1 = adjust d;
             old_scale = scale d1;
             d2 = d1\<lparr>scale := fitScale width height d1\<rparr>
         in if \<bar>scale d2 - old_scale\<bar> < 1/10 then Some d2
            else fitLoop adjust width height d2)
      else Some d)"

text \<open>
  C++ division of \<open>int\<close> by \<open>int\<close> truncates towards zero; \<open>centrePicture\<close> halves the
  width and the height that way (\<open>width / 2\<close>, \<open>height / 2\<close>).
\<close>

definition c_div :: "int \<Rightarrow> int \<Rightarrow> int" where
  "c_div a b = sgn a * sgn b * (\<bar>a\<bar> div \<bar>b\<bar>)"

text \<open>\<open>MolDraw2D::centrePicture\<close>.\<close>

definition centrePicture :: "int \<Rightarrow> int \<Rightarrow> 'a ScaleState_scheme \<Rightarrow> 'a ScaleState_scheme" where
  "centrePicture width height d =
     (let y_mid = y_min d + 0.5 * y_range d;
          x_mid = x_min d + 0.5 * x_range d;
          mx0 = scale d * (x_mid - x_min d);
          my0 = scale d * (y_mid - y_min d);
          mx1 = mx0 + real_of_int (x_offset d);
          my1 = my0 - real_of_int (y_offset d);
          my2 = real_of_int height - my1;
          mx3 = mx1 - real_of_int (x_offset d);
          my3 = my2 + real_of_int (y_offset d)
      in d\<lparr>x_trans := (real_of_int (c_div width 2) - mx3) / scale d,
           y_trans := (my3 - real_of_int (c_div height 2)) / scale d\<rparr>)"

text \<open>\<open>calculateScale\<close>, the padding step after the loop.\<close>

definition applyPadding :: "ScaleOptions \<Rightarrow> 'a ScaleState_scheme \<Rightarrow> 'a ScaleState_scheme" where
  "applyPadding opts d =
     d\<lparr>x_min := x_min d - padding opts * x_range d,
       x_range := x_range d * (1 + 2 * padding opts),
       y_min := y_min d - padding opts * y_range d,
       y_range := y_range d * (1 + 2 * padding opts)\<rparr>"

text \<open>The override \<open>fix_scale\<close>: it starts as the fit-to-box scale, a positive
  \<open>fixedBondLength\<close> replaces it, and a positive \<open>fixedScale\<close> replaces that.\<close>

definition fixScale :: "ScaleOptions \<Rightarrow> int \<Rightarrow> real \<Rightarrow> real" where
  "fixScale opts width fit =
     (let f0 = fit;
          f1 = (if fixedBondLength opts > 0 then fixedBondLength opts else f0);
          f2 = (if fixedScale opts > 0 then real_of_int width * fixedScale opts else f1)
      in f2)"

text \<open>\<open>calculateScale\<close>, the last part: final scale and centring translation.\<close>

definition finalScale ::
  "ScaleOptions \<Rightarrow> int \<Rightarrow> int \<Rightarrow> 'a ScaleState_scheme \<Rightarrow> 'a ScaleState_scheme" where
  "finalScale opts width height d =
     (let d1 = applyPadding opts d
      in if x_range d1 > 1/10000 \<or> y_range d1 > 1/10000 then
           (let fit = fitScale width height d1;
                fix_scale = fixScale opts width fit;
                d2 = d1\<lparr>scale := (if fit > fix_scale then fix_scale else fit)\<rparr>
            in centrePicture width height d2)
         else d1\<lparr>scale := 1, x_trans := 0, y_trans := 0\<rparr>)"

text \<open>
  \<open>MolDraw2D::calculateScale\<close> for one molecule, on the scale state.  (The font-size
  correction for short mean bond lengths at its end changes only the text drawer.)
\<close>

definition calculateScale ::
  "ScaleOptions \<Rightarrow> ('a ScaleState_scheme \<Rightarrow> box list) \<Rightarrow> ('a ScaleState_scheme \<Rightarrow> box list) \<Rightarrow>
   bool \<Rightarrow> AnnotationType list \<Rightarrow> int \<Rightarrow> int \<Rightarrow>
   Point2D list \<Rightarrow> MolDrawShape list \<Rightarrow> MolDrawShape list \<Rightarrow>
   'a ScaleState_scheme \<Rightarrow> 'a ScaleState_scheme option" where
  "calculateScale opts labels radicals supportsAnnotations notes width height cds pre post d =
     (let d1 = initialSpans d (boundingBox cds pre post);
          d2 = d1\<lparr>scale := fitScale width height d1\<rparr>
      in case fitLoop (adjustOnce labels radicals supportsAnnotations notes) width height d2 of
           None \<Rightarrow> None
         | Some d3 \<Rightarrow> Some (finalScale opts width height d3))"

section \<open>The molecule graph\<close>

text \<open>
  Modelled from the spec: the molecule graph (\<open>ROMol\<close>, \<open>Atom\<close>, \<open>Bond\<close>, \<open>RingInfo\<close> and
  the bond queries) is supplied by the depiction source and declared outside the source
  file.  The model keeps what the drawing code reads: the number of atoms (atom indices
  are \<open>0 ..< numAtoms\<close>), the bonds in index order, each with its begin and end atom,
  type, direction, stereo flag, aromaticity flag and optional query, the bond rings (each
  a list of bond indices) and the conformers (each a list of 2D positions, one per atom).
  A query has a description, a negation flag and child queries.
\<close>

datatype BondType =
  UNSPECIFIED | SINGLE | DOUBLE | TRIPLE | AROMATIC | HYDROGEN
  | DATIVE | DATIVEL | DATIVER | ZERO | OTHER

datatype BondDir =
  NONE | BEGINWEDGE | BEGINDASH | ENDDOWNRIGHT | ENDUPRIGHT | EITHERDOUBLE | UNKNOWN

datatype BondStereo =
  STEREONONE | STEREOANY | STEREOZ | STEREOE | STEREOCIS | STEREOTRANS

datatype Query = Query (getDescription: string) (getNegation: bool) (children: "Query list")

record Bond =
  getIdx :: nat
  getBeginAtomIdx :: nat
  getEndAtomIdx :: nat
  getBondType :: BondType
  getBondDir :: BondDir
  getStereo :: BondStereo
  getIsAromatic :: bool
  getQuery :: "Query option"

record ROMol =
  numAtoms :: nat
  bonds :: "Bond list"
  bondRings :: "nat list list"
  conformers :: "Point2D list list"

definition hasQuery :: "Bond \<Rightarrow> bool" where
  "hasQuery b = (getQuery b \<noteq> None)"

text \<open>\<open>Bond::getOtherAtomIdx\<close>: the other end of a bond seen from one of its atoms.\<close>

definition getOtherAtomIdx :: "Bond \<Rightarrow> nat \<Rightarrow> nat" where
  "getOtherAtomIdx b thisIdx =
     (if getBeginAtomIdx b = thisIdx then getEndAtomIdx b else getBeginAtomIdx b)"

text \<open>\<open>ROMol::getAtomBonds\<close>: the bonds incident to an atom, in bond order.\<close>

definition getAtomBonds :: "ROMol \<Rightarrow> nat \<Rightarrow> Bond list" where
  "getAtomBonds mol a =
     filter (\<lambda>b. getBeginAtomIdx b = a \<or> getEndAtomIdx b = a) (bonds mol)"

definition getAtomNeighbors :: "ROMol \<Rightarrow> nat \<Rightarrow> nat list" where
  "getAtomNeighbors mol a = map (\<lambda>b. getOtherAtomIdx b a) (getAtomBonds mol a)"

definition getDegree :: "ROMol \<Rightarrow> nat \<Rightarrow> nat" where
  "getDegree mol a = length (getAtomBonds mol a)"

definition getNumConformers :: "ROMol \<Rightarrow> nat" where
  "getNumConformers mol = length (conformers mol)"

text \<open>\<open>RingInfo::numBondRings\<close>: the number of rings a bond is in.\<close>

definition numBondRings :: "ROMol \<Rightarrow> nat \<Rightarrow> nat" where
  "numBondRings mol bidx = length (filter (\<lambda>ring. bidx \<in> set ring) (bondRings mol))"

text \<open>
  A molecule is well formed when every bond joins two different atoms of the molecule
  (the graph library refuses a bond from an atom to itself), the index of a bond is its
  position among the bonds, and the rings name bonds of the molecule.
\<close>

definition wellFormedMol :: "ROMol \<Rightarrow> bool" where
  "wellFormedMol mol =
     (list_all (\<lambda>b. getBeginAtomIdx b \<noteq> getEndAtomIdx b
                 \<and> getBeginAtomIdx b < numAtoms mol \<and> getEndAtomIdx b < numAtoms mol)
        (bonds mol)
      \<and> map getIdx (bonds mol) = [0 ..< length (bonds mol)]
      \<and> list_all (list_all (\<lambda>i. i < length (bonds mol))) (bondRings mol))"

section \<open>Drawing the bonds of a molecule\<close>

text \<open>
  \<open>MolDraw2D::drawBonds\<close>.  The model returns the calls of \<open>drawBond\<close> it makes, in
  order, each as the bond with the two atom indices passed (\<open>this_idx\<close>, \<open>nbr_idx\<close>);
  \<open>n_cds\<close> is the size of the coordinate array of the active molecule.
\<close>

definition drawBonds :: "ROMol \<Rightarrow> nat \<Rightarrow> (Bond \<times> nat \<times> nat) list" where
  "drawBonds draw_mol n_cds =
     concat (map (\<lambda>this_idx.
        map (\<lambda>bond. (bond, this_idx, getOtherAtomIdx bond this_idx))
          (filter (\<lambda>bond. getOtherAtomIdx bond this_idx < n_cds
                         \<and> getOtherAtomIdx bond this_idx > this_idx)
             (getAtomBonds draw_mol this_idx)))
       [0 ..< numAtoms draw_mol])"

text \<open>The guard of \<open>drawBonds\<close> as a predicate: the bond is incident to the atom and is
  drawn from it.\<close>

definition drawnFrom :: "nat \<Rightarrow> nat \<Rightarrow> Bond \<Rightarrow> bool" where
  "drawnFrom n_cds a b =
     ((getBeginAtomIdx b = a \<or> getEndAtomIdx b = a)
      \<and> getOtherAtomIdx b a < n_cds \<and> getOtherAtomIdx b a > a)"

section \<open>Geometry primitives\<close>

text \<open>A vector \<open>p\<close> is a unit perpendicular to \<open>v\<close>.\<close>

definition unitPerpTo :: "Point2D \<Rightarrow> Point2D \<Rightarrow> bool" where
  "unitPerpTo v p = (lengthSq p = 1 \<and> dotProduct p v = 0)"


text \<open>\<open>calcPerpendicular\<close>: the normalised perpendicular to the vector between two
  coordinates (\<open>None\<close> when they coincide: division by the zero length).\<close>

definition calcPerpendicular :: "Point2D \<Rightarrow> Point2D \<Rightarrow> Point2D option" where
  "calcPerpendicular cds1 cds2 =
     (let bv0 = ptx cds1 - ptx cds2;
          bv1 = pty cds1 - pty cds2;
          perp0 = - bv1;
          perp1 = bv0;
          perp_len = sqrt (perp0 * perp0 + perp1 * perp1)
      in if perp_len = 0 then None else Some (Point2D (perp0 / perp_len) (perp1 / perp_len)))"

text \<open>\<open>calcInnerPerpendicular\<close>: that perpendicular, turned to lie inside the angle
  made by (1 and 2) and (2 and 3).\<close>

definition calcInnerPerpendicular :: "Point2D \<Rightarrow> Point2D \<Rightarrow> Point2D \<Rightarrow> Point2D option" where
  "calcInnerPerpendicular cds1 cds2 cds3 =
     do {
       perp \<leftarrow> calcPerpendicular cds1 cds2;
       let v1 = psub cds1 cds2;
       let v2 = psub cds2 cds3;
       let obv = psub v1 v2;
       Some (if ptx obv * ptx perp + pty obv * pty perp < 0
             then Point2D (ptx perp * (-1)) (pty perp * (-1)) else perp)
     }"

text \<open>
  The lambda \<open>calc_perp\<close> of \<open>bondInsideRing\<close>: the first other bond at the begin atom
  of the bond that lies in the ring gives the third atom.  The outer \<open>option\<close> is the
  undefined read, the inner one the null pointer the lambda returns when it finds no
  such bond.  (The source compares bond pointers; the model compares bond indices.)
\<close>

definition calc_perp ::
  "ROMol \<Rightarrow> Point2D \<Rightarrow> Point2D \<Rightarrow> Point2D list \<Rightarrow> Bond \<Rightarrow> nat list \<Rightarrow> Point2D option option" where
  "calc_perp mol cds1 cds2 at_cds bond ring =
     (case find (\<lambda>bond2. getIdx bond2 \<noteq> getIdx bond \<and> getIdx bond2 \<in> set ring)
             (getAtomBonds mol (getBeginAtomIdx bond)) of
        None \<Rightarrow> Some None
      | Some bond2 \<Rightarrow>
          do {
            let atom3 = getOtherAtomIdx bond2 (getBeginAtomIdx bond);
            c3 \<leftarrow> vecAt at_cds atom3;
            ret \<leftarrow> calcInnerPerpendicular cds1 cds2 c3;
            Some (Some ret)
          })"

text \<open>
  The test \<open>ring_ok\<close> of \<open>bondInsideRing\<close>: every bond of the ring has the
  aromaticity flag of the bond; the loop stops at the first that has not.
  (\<open>getBondWithIdx\<close> refuses an index that is not a bond of the molecule: \<open>None\<close>.)
\<close>

fun ring_ok :: "ROMol \<Rightarrow> Bond \<Rightarrow> nat list \<Rightarrow> bool option" where
  "ring_ok mol bond [] = Some True"
| "ring_ok mol bond (bond_idx # rest) =
     (case vecAt (bonds mol) bond_idx of
        None \<Rightarrow> None
      | Some bond2 \<Rightarrow>
          if getIsAromatic bond \<noteq> getIsAromatic bond2 then Some False
          else ring_ok mol bond rest)"

text \<open>
  The loop of \<open>bondInsideRing\<close> over the rings that hold the bond, taken when there is
  more than one: the first ring of the bond's aromaticity in which \<open>calc_perp\<close> finds a
  third atom decides; \<open>Some None\<close> when the loop falls through.
\<close>

fun firstRingPerp ::
  "ROMol \<Rightarrow> Bond \<Rightarrow> Point2D \<Rightarrow> Point2D \<Rightarrow> Point2D list \<Rightarrow> nat list list \<Rightarrow> Point2D option option" where
  "firstRingPerp mol bond cds1 cds2 at_cds [] = Some None"
| "firstRingPerp mol bond cds1 cds2 at_cds (ring # rest) =
     (case ring_ok mol bond ring of
        None \<Rightarrow> None
      | Some False \<Rightarrow> firstRingPerp mol bond cds1 cds2 at_cds rest
      | Some True \<Rightarrow>
          (case calc_perp mol cds1 cds2 at_cds bond ring of
             None \<Rightarrow> None
           | Some (Some ret) \<Rightarrow> Some (Some ret)
           | Some None \<Rightarrow> firstRingPerp mol bond cds1 cds2 at_cds rest))"

text \<open>
  \<open>bondInsideRing\<close>: the perpendicular pointing into the ring.  (The source collects
  the indices of the rings that hold the bond and fetches each ring by its index; the
  model collects the rings themselves.  \<open>front()\<close> of an empty list is undefined.)
\<close>

definition bondInsideRing ::
  "ROMol \<Rightarrow> Bond \<Rightarrow> Point2D \<Rightarrow> Point2D \<Rightarrow> Point2D list \<Rightarrow> Point2D option" where
  "bondInsideRing mol bond cds1 cds2 at_cds =
     (let bond_in_rings = filter (\<lambda>ring. getIdx bond \<in> set ring) (bondRings mol)
      in case (if length bond_in_rings > 1
               then firstRingPerp mol bond cds1 cds2 at_cds bond_in_rings else Some None) of
           None \<Rightarrow> None
         | Some (Some ret) \<Rightarrow> Some ret
         | Some None \<Rightarrow>
             (case bond_in_rings of
                [] \<Rightarrow> None
              | ring # _ \<Rightarrow>
                  (case calc_perp mol cds1 cds2 at_cds bond ring of
                     None \<Rightarrow> None
                   | Some (Some ret) \<Rightarrow> Some ret
                   | Some None \<Rightarrow> calcPerpendicular cds1 cds2)))"

text \<open>\<open>ROMol::getBondBetweenAtoms\<close>.\<close>

definition getBondBetweenAtoms :: "ROMol \<Rightarrow> nat \<Rightarrow> nat \<Rightarrow> Bond option" where
  "getBondBetweenAtoms mol a1 a2 =
     find (\<lambda>b. (getBeginAtomIdx b = a1 \<and> getEndAtomIdx b = a2)
              \<or> (getBeginAtomIdx b = a2 \<and> getEndAtomIdx b = a1)) (bonds mol)"

text \<open>\<open>isLinearAtom\<close>: an atom of degree 2 whose two bonds have the same type and
  point in nearly opposite directions.\<close>

definition isLinearAtom :: "ROMol \<Rightarrow> nat \<Rightarrow> Point2D list \<Rightarrow> bool option" where
  "isLinearAtom mol atom at_cds =
     (if getDegree mol atom = 2 then
        (case getAtomNeighbors mol atom of
           [nbr0, nbr1] \<Rightarrow>
             do {
               at1_cds \<leftarrow> vecAt at_cds atom;
               c0 \<leftarrow> vecAt at_cds nbr0;
               d0 \<leftarrow> directionVector at1_cds c0;
               bond_vec0 \<leftarrow> normalize d0;
               b0 \<leftarrow> getBondBetweenAtoms mol atom nbr0;
               c1 \<leftarrow> vecAt at_cds nbr1;
               d1 \<leftarrow> directionVector at1_cds c1;
               bond_vec1 \<leftarrow> normalize d1;
               b1 \<leftarrow> getBondBetweenAtoms mol atom nbr1;
               Some (getBondType b0 = getBondType b1 \<and> dotProduct bond_vec0 bond_vec1 < - 0.95)
             }
         | _ \<Rightarrow> None)
      else Some False)"

text \<open>
  \<open>bondInsideDoubleBond\<close>: for a chain double bond, the perpendicular pointing inside
  the angle of an outgoing bond.  When the atom has no other bond, \<open>at3\<close> stays \<open>-1\<close>
  and the read of the coordinate array is undefined.
\<close>

definition bondInsideDoubleBond :: "ROMol \<Rightarrow> Bond \<Rightarrow> Point2D list \<Rightarrow> Point2D option" where
  "bondInsideDoubleBond mol bond at_cds =
     (let at1 = getBeginAtomIdx bond;
          at2 = getEndAtomIdx bond;
          bond_atom = (if getDegree mol at1 > 1 then at1 else at2);
          end_atom = (if getDegree mol at1 > 1 then at2 else at1)
      in case find (\<lambda>bond2. getIdx bond2 \<noteq> getIdx bond) (getAtomBonds mol bond_atom) of
           None \<Rightarrow> None
         | Some bond2 \<Rightarrow>
             do {
               let at3 = getOtherAtomIdx bond2 bond_atom;
               ce \<leftarrow> vecAt at_cds end_atom;
               cb \<leftarrow> vecAt at_cds bond_atom;
               c3 \<leftarrow> vecAt at_cds at3;
               calcInnerPerpendicular ce cb c3
             })"

text \<open>
  \<open>calcDoubleBondLines\<close>.  The result is the four points \<open>(l1s, l1f, l2s, l2f)\<close> that
  the source returns in its reference parameters.  The first test is evaluated left to
  right as \<open>||\<close> does.
\<close>

definition multipleBondTruncation :: real where
  "multipleBondTruncation = 0.15"

definition endOrLinear :: "ROMol \<Rightarrow> Bond \<Rightarrow> Point2D list \<Rightarrow> bool option" where
  "endOrLinear mol bond at_cds =
     (if 1 = getDegree mol (getBeginAtomIdx bond) \<or> 1 = getDegree mol (getEndAtomIdx bond)
      then Some True
      else case isLinearAtom mol (getBeginAtomIdx bond) at_cds of
             None \<Rightarrow> None
           | Some True \<Rightarrow> Some True
           | Some False \<Rightarrow> isLinearAtom mol (getEndAtomIdx bond) at_cds)"

definition calcDoubleBondLines ::
  "ROMol \<Rightarrow> real \<Rightarrow> Bond \<Rightarrow> Point2D \<Rightarrow> Point2D \<Rightarrow> Point2D list \<Rightarrow>
   (Point2D \<times> Point2D \<times> Point2D \<times> Point2D) option" where
  "calcDoubleBondLines mol offset bond at1_cds at2_cds at_cds =
     (case endOrLinear mol bond at_cds of
        None \<Rightarrow> None
      | Some True \<Rightarrow>
          do {
            p \<leftarrow> calcPerpendicular at1_cds at2_cds;
            let perp = pmul p offset;
            Some (padd at1_cds perp, padd at2_cds perp, psub at1_cds perp, psub at2_cds perp)
          }
      | Some False \<Rightarrow>
          if EITHERDOUBLE = getBondDir bond \<or> STEREOANY = getStereo bond then
            do {
              p \<leftarrow> calcPerpendicular at1_cds at2_cds;
              let perp = pmul p offset;
              Some (padd at1_cds perp, psub at2_cds perp, psub at1_cds perp, padd at2_cds perp)
            }
          else
            do {
              let offset2 = offset * 2.0;
              perp \<leftarrow> (if numBondRings mol (getIdx bond) \<noteq> 0
                       then bondInsideRing mol bond at1_cds at2_cds at_cds
                       else bondInsideDoubleBond mol bond at_cds);
              let bv = psub at1_cds at2_cds;
              Some (at1_cds, at2_cds,
                    padd (psub at1_cds (pmul bv multipleBondTruncation)) (pmul perp offset2),
                    padd (padd at2_cds (pmul bv multipleBondTruncation)) (pmul perp offset2))
            })"


section \<open>The canvas and the query-bond glyphs\<close>

text \<open>
  Modelled from the spec: the canvas is an external collaborator with the primitives
  \<open>drawLine\<close>, \<open>drawPolygon\<close>, \<open>drawEllipse\<close>, \<open>setColour\<close>, \<open>setLineWidth\<close>,
  \<open>setDashPattern\<close> and \<open>setFillMode\<close>.  A drawing function of the source is modelled by
  the ordered sequence of the calls it makes on the drawer: the primitives above, the
  tagging call \<open>setActiveAtmIdx\<close> (its missing arguments default to \<open>-1\<close>), an assignment
  to the option \<open>scaleBondWidth\<close>, and, for a function that is not expanded here, the
  call itself: \<open>drawNormalBond\<close> with its arguments, \<open>drawBond\<close> with the bond index and
  the two atom indices, \<open>MolDraw2D_detail::drawShapes\<close> with the shapes, \<open>clearDrawing\<close>,
  \<open>tagAtoms\<close>, and any other member function by its name.
\<close>

datatype DrawColour = DrawColour real real real

datatype Event =
    SetActiveAtmIdx int int
  | SetColour DrawColour
  | SetDash "real list"
  | SetFillPolys bool
  | SetLineWidth int
  | SetScaleBondWidth bool
  | DrawLine Point2D Point2D
  | DrawPolygon "Point2D list"
  | DrawEllipse Point2D Point2D
  | DrawNormalBond nat bool Point2D Point2D DrawColour DrawColour real
  | DrawBond nat nat nat
  | DrawShapes "MolDrawShape list"
  | ClearDrawing
  | TagAtoms
  | Call string


definition dots :: "real list" where "dots = [2, 6]"
definition dashes :: "real list" where "dashes = [6, 6]"












section \<open>The annotation placement engine\<close>

text \<open>
  Whether a note at a position clashes with a neighbouring bond, an atom label or an
  earlier annotation is decided by intersection queries of the text metrics service,
  which lies outside the source file: the three tests \<open>doesNoteClashNbourBonds\<close>,
  \<open>doesNoteClashAtomLabels\<close> and \<open>doesNoteClashOtherNotes\<close> are parameters of the model,
  predicates on the position of the note.  \<open>doesAtomNoteClash\<close> and
  \<open>doesBondNoteClash\<close> combine them in the same way into the clash score.
\<close>

definition doesNoteClash ::
  "(Point2D \<Rightarrow> bool) \<Rightarrow> (Point2D \<Rightarrow> bool) \<Rightarrow> (Point2D \<Rightarrow> bool) \<Rightarrow> Point2D \<Rightarrow> int" where
  "doesNoteClash nbourBonds atomLabels otherNotes note_pos =
     (if nbourBonds note_pos then 1
      else if atomLabels note_pos then 2
      else if otherNotes note_pos then 3
      else 0)"

text \<open>
  Modelled from the spec: the constructor of \<open>StringRect\<close> (in a header that is not part
  of the source file) gives a rectangle at the origin with no extent and clash score 0.
\<close>

definition defaultStringRect :: StringRect where
  "defaultStringRect = \<lparr>rtrans = Point2D 0 0, rwidth = 0, rheight = 0, clash_score = 0\<rparr>"

text \<open>
  The body shared by the search loops of \<open>calcAtomAnnotationPosition\<close> and of
  \<open>calcAnnotationPosition\<close> for a bond, over the positions in the order the loops try
  them.  For each position: store it in the rectangle of the annotation, compute the
  clash score at \<open>getAtomCoords\<close> of the position, return at once when the score is 0,
  and otherwise, when the score is below the clash score of \<open>least_worst_rect\<close>, assign
  the rectangle of the annotation to \<open>least_worst_rect\<close>.  The result is whether the
  function returned from inside the loop, the annotation, and \<open>least_worst_rect\<close>.
\<close>

fun scanPositions ::
  "(Point2D \<Rightarrow> int) \<Rightarrow> 'a ScaleState_scheme \<Rightarrow> Point2D list \<Rightarrow> AnnotationType \<Rightarrow> StringRect \<Rightarrow>
   bool \<times> AnnotationType \<times> StringRect" where
  "scanPositions clash d [] annot least_worst_rect = (False, annot, least_worst_rect)"
| "scanPositions clash d (pos # rest) annot least_worst_rect =
     (let annot1 = annot\<lparr>rect := (rect annot)\<lparr>rtrans := pos\<rparr>\<rparr>;
          note_pos = getAtomCoords d (ptx pos, pty pos);
          clash_score1 = clash note_pos
      in if clash_score1 = 0 then (True, annot1, least_worst_rect)
         else scanPositions clash d rest annot1
                (if clash_score1 < clash_score least_worst_rect then rect annot1
                 else least_worst_rect))"

text \<open>The positions an atom note is tried at: radii 0.25, 0.5 and 0.75 (the first is
  skipped when the atom has a symbol), twelve angles 30 degrees apart from the start
  angle.\<close>

definition atomNotePositions :: "Point2D \<Rightarrow> bool \<Rightarrow> real \<Rightarrow> Point2D list" where
  "atomNotePositions at_cds hasSymbol start_ang =
     concat (map (\<lambda>j.
        if j = 1 \<and> hasSymbol then []
        else map (\<lambda>i.
               (let note_rad = real j * 0.25;
                    ang = start_ang + real i * 30.0 * pi / 180.0
                in Point2D (ptx at_cds + cos ang * note_rad) (pty at_cds + sin ang * note_rad)))
             [0 ..< 12])
       [1, 2, 3])"

text \<open>
  \<open>MolDraw2D::calcAtomAnnotationPosition\<close>.  \<open>at_cds\<close> and \<open>atom_syms\<close> are the arrays of
  the active molecule (a symbol is a text with an orientation, here only the text);
  the result is the annotation as the function leaves it.
\<close>

definition calcAtomAnnotationPosition ::
  "(Point2D \<Rightarrow> int) \<Rightarrow> 'a ScaleState_scheme \<Rightarrow> Point2D list \<Rightarrow> string list \<Rightarrow> nat \<Rightarrow> real \<Rightarrow>
   AnnotationType \<Rightarrow> AnnotationType option" where
  "calcAtomAnnotationPosition clash d at_cds atom_syms atom_idx start_ang annot =
     do {
       cds \<leftarrow> vecAt at_cds atom_idx;
       atsym \<leftarrow> vecAt atom_syms atom_idx;
       let least_worst_rect = defaultStringRect\<lparr>clash_score := 100\<rparr>;
       (case scanPositions clash d (atomNotePositions cds (atsym \<noteq> []) start_ang) annot
               least_worst_rect of
          (True, annot1, lw) \<Rightarrow> Some annot1
        | (False, annot1, lw) \<Rightarrow> Some (annot1\<lparr>rect := lw\<rparr>))
     }"

text \<open>
  \<open>MolDraw2D::calcAnnotationPosition\<close> for an atom, with the start angle that
  \<open>getNoteStartAngle\<close> computes passed in.
\<close>

definition calcAnnotationPositionAtom ::
  "(Point2D \<Rightarrow> int) \<Rightarrow> 'a ScaleState_scheme \<Rightarrow> Point2D list \<Rightarrow> string list \<Rightarrow> nat \<Rightarrow> real \<Rightarrow>
   AnnotationType \<Rightarrow> AnnotationType option" where
  "calcAnnotationPositionAtom clash d at_cds atom_syms atom_idx start_ang annot =
     (if note_text annot = [] then Some (annot\<lparr>rect := (rect annot)\<lparr>rwidth := - 1.0\<rparr>\<rparr>)
      else
        do {
          cds \<leftarrow> vecAt at_cds atom_idx;
          calcAtomAnnotationPosition clash d at_cds atom_syms atom_idx start_ang
            (annot\<lparr>rect := (rect annot)\<lparr>rtrans := Point2D (ptx cds) (pty cds)\<rparr>\<rparr>)
        })"

text \<open>\<open>bond->getBondType() > 1\<close>: the bond types after \<open>SINGLE\<close> in the enumeration.\<close>

definition bondTypeAboveSingle :: "BondType \<Rightarrow> bool" where
  "bondTypeAboveSingle t = (t \<noteq> UNSPECIFIED \<and> t \<noteq> SINGLE)"

text \<open>The positions a bond note is tried at: five points along the bond, at each up to
  five perpendicular offsets (the first is skipped for a multiple bond), on both sides.\<close>

definition bondNotePositions ::
  "Point2D \<Rightarrow> Point2D \<Rightarrow> Point2D \<Rightarrow> real \<Rightarrow> real \<Rightarrow> bool \<Rightarrow> Point2D list" where
  "bondNotePositions at1_cds perp bond_vec bond_len offset_step aboveSingle =
     concat (map (\<lambda>mo.
        (let mid = padd at1_cds (pmul (pmul bond_vec bond_len) mo)
         in concat (map (\<lambda>j.
              if j = 1 \<and> aboveSingle then []
              else (let offset = real j * offset_step
                    in [padd mid (pmul perp offset), psub mid (pmul perp offset)]))
            [1, 2, 3, 4, 5])))
       [0.5, 0.33, 0.66, 0.25, 0.75])"

text \<open>
  \<open>MolDraw2D::calcAnnotationPosition\<close> for a bond.  When the loops end without a
  clash-free position the function returns without a further assignment.
\<close>

definition calcAnnotationPositionBond ::
  "(Point2D \<Rightarrow> int) \<Rightarrow> 'a ScaleState_scheme \<Rightarrow> Point2D list \<Rightarrow> real \<Rightarrow> Bond \<Rightarrow>
   AnnotationType \<Rightarrow> AnnotationType option" where
  "calcAnnotationPositionBond clash d at_cds multipleBondOffset bond annot =
     do {
       let annot0 = (if note_text annot = []
                     then annot\<lparr>rect := (rect annot)\<lparr>rwidth := - 1.0\<rparr>\<rparr> else annot);
       at1_cds \<leftarrow> vecAt at_cds (getBeginAtomIdx bond);
       at2_cds \<leftarrow> vecAt at_cds (getEndAtomIdx bond);
       perp \<leftarrow> calcPerpendicular at1_cds at2_cds;
       bond_vec \<leftarrow> directionVector at1_cds at2_cds;
       let bond_len = plength (psub at1_cds at2_cds);
       let least_worst_rect = defaultStringRect\<lparr>clash_score := 100\<rparr>;
       (case scanPositions clash d
               (bondNotePositions at1_cds perp bond_vec bond_len multipleBondOffset
                  (bondTypeAboveSingle (getBondType bond)))
               annot0 least_worst_rect of
          (returned, annot1, lw) \<Rightarrow> Some annot1)
     }"

section \<open>The render context stack and the draw pass\<close>

text \<open>
  The drawer: the scale state, the flags and settings the draw pass reads, the stack of
  per-molecule arrays (\<open>at_cds_\<close>, \<open>atomic_nums_\<close>, \<open>atom_syms_\<close>, \<open>annotations_\<close>,
  \<open>pre_shapes_\<close>, \<open>post_shapes_\<close>, \<open>radicals_\<close>, here with the suffix \<open>_stack\<close>) with the
  index \<open>activeMolIdx_\<close> of the active molecule, and the calls made on the canvas so
  far.
\<close>

record MolDraw2D = ScaleState +
  needs_scale :: bool
  panel_width :: int
  fill_polys :: bool
  line_width :: int
  activeMolIdx :: int
  at_cds_stack :: "Point2D list list"
  atomic_nums_stack :: "int list list"
  atom_syms_stack :: "string list list"
  annotations_stack :: "AnnotationType list list"
  pre_shapes_stack :: "MolDrawShape list list"
  post_shapes_stack :: "MolDrawShape list list"
  radicals_stack :: "StringRect list list"
  canvas :: "Event list"

text \<open>The drawing options the draw pass reads, on top of those of the scale
  computation.\<close>

record MolDrawOptions = ScaleOptions +
  clearBackground :: bool
  includeAtomTags :: bool
  atomRegions :: "nat list list"
  continuousHighlight :: bool
  circleAtoms :: bool
  includeMetadata :: bool

text \<open>
  What the extraction passes of \<open>setupDrawMolecule\<close> leave in the arrays of the active
  molecule.  The passes consult the text metrics service and the properties of the
  molecule, so their result is a parameter of the model.
\<close>

record Extracted =
  x_at_cds :: "Point2D list"
  x_atomic_nums :: "int list"
  x_atom_syms :: "string list"
  x_annotations :: "AnnotationType list"
  x_pre_shapes :: "MolDrawShape list"
  x_post_shapes :: "MolDrawShape list"
  x_radicals :: "StringRect list"

text \<open>
  The collaborators of the draw pass that lie outside the source file or are not
  expanded: the preparation of the molecule (copy, \<open>prepareMolForDrawing\<close>, centring,
  simplified stereo label), the extraction passes, the footprints of labels and
  radicals for the scale computation, and whether the backend supports annotations.
\<close>

record Collaborators =
  prepare :: "ROMol \<Rightarrow> ROMol"
  extractAll :: "ROMol \<Rightarrow> Extracted"
  labelFootprints :: "MolDraw2D \<Rightarrow> box list"
  radicalFootprints :: "MolDraw2D \<Rightarrow> box list"
  supportsAnnotations :: bool

text \<open>
  How a call can fail: a precondition of the source is violated (an exception), an
  array is read past its end (undefined behaviour), or a loop does not end.
\<close>

datatype DrawError = PreconditionFailed | UndefinedRead | Diverges

text \<open>\<open>MolDraw2D::pushDrawDetails\<close>.\<close>

definition pushDrawDetails :: "MolDraw2D \<Rightarrow> MolDraw2D" where
  "pushDrawDetails s =
     s\<lparr>at_cds_stack := at_cds_stack s @ [[]],
       atomic_nums_stack := atomic_nums_stack s @ [[]],
       atom_syms_stack := atom_syms_stack s @ [[]],
       annotations_stack := annotations_stack s @ [[]],
       pre_shapes_stack := pre_shapes_stack s @ [[]],
       post_shapes_stack := post_shapes_stack s @ [[]],
       radicals_stack := radicals_stack s @ [[]],
       activeMolIdx := activeMolIdx s + 1\<rparr>"

text \<open>\<open>MolDraw2D::popDrawDetails\<close>; \<open>pop_back\<close> on an empty vector is undefined.\<close>

definition popDrawDetails :: "MolDraw2D \<Rightarrow> DrawError + MolDraw2D" where
  "popDrawDetails s =
     (if annotations_stack s = [] \<or> pre_shapes_stack s = [] \<or> post_shapes_stack s = []
         \<or> atom_syms_stack s = [] \<or> atomic_nums_stack s = [] \<or> radicals_stack s = []
         \<or> at_cds_stack s = []
      then Inl UndefinedRead
      else Inr (s\<lparr>activeMolIdx := activeMolIdx s - 1,
                  annotations_stack := butlast (annotations_stack s),
                  pre_shapes_stack := butlast (pre_shapes_stack s),
                  post_shapes_stack := butlast (post_shapes_stack s),
                  atom_syms_stack := butlast (atom_syms_stack s),
                  atomic_nums_stack := butlast (atomic_nums_stack s),
                  radicals_stack := butlast (radicals_stack s),
                  at_cds_stack := butlast (at_cds_stack s)\<rparr>))"

text \<open>The depth of the context stack: the sizes of the seven arrays.\<close>

definition stackDepths :: "MolDraw2D \<Rightarrow> nat list" where
  "stackDepths s =
     [length (at_cds_stack s), length (atomic_nums_stack s), length (atom_syms_stack s),
      length (annotations_stack s), length (pre_shapes_stack s), length (post_shapes_stack s),
      length (radicals_stack s)]"

text \<open>
  The preconditions of the extraction passes: an active molecule, and room for it in
  the arrays.
\<close>

definition hasRoom :: "MolDraw2D \<Rightarrow> bool" where
  "hasRoom s =
     (0 \<le> activeMolIdx s
      \<and> activeMolIdx s < int (length (at_cds_stack s))
      \<and> activeMolIdx s < int (length (atomic_nums_stack s))
      \<and> activeMolIdx s < int (length (atom_syms_stack s))
      \<and> activeMolIdx s < int (length (annotations_stack s))
      \<and> activeMolIdx s < int (length (pre_shapes_stack s))
      \<and> activeMolIdx s < int (length (post_shapes_stack s))
      \<and> activeMolIdx s < int (length (radicals_stack s)))"

text \<open>The extraction passes write the arrays of the active molecule.\<close>

definition storeExtracted :: "Extracted \<Rightarrow> MolDraw2D \<Rightarrow> MolDraw2D" where
  "storeExtracted x s =
     (let i = nat (activeMolIdx s)
      in s\<lparr>at_cds_stack := (at_cds_stack s)[i := x_at_cds x],
           atomic_nums_stack := (atomic_nums_stack s)[i := x_atomic_nums x],
           atom_syms_stack := (atom_syms_stack s)[i := x_atom_syms x],
           annotations_stack := (annotations_stack s)[i := x_annotations x],
           pre_shapes_stack := (pre_shapes_stack s)[i := x_pre_shapes x],
           post_shapes_stack := (post_shapes_stack s)[i := x_post_shapes x],
           radicals_stack := (radicals_stack s)[i := x_radicals x]\<rparr>)"

text \<open>
  Reading an array at the index of the active molecule, \<open>a_[activeMolIdx_]\<close>: undefined
  when the index is negative or past the end.
\<close>

definition activeEntry :: "'a list \<Rightarrow> MolDraw2D \<Rightarrow> 'a option" where
  "activeEntry stack s =
     (if activeMolIdx s < 0 then None else vecAt stack (nat (activeMolIdx s)))"

text \<open>\<open>drawHeight()\<close>: the panel height less the legend height.\<close>

definition drawHeight :: "MolDraw2D \<Rightarrow> int" where
  "drawHeight s = panel_height s - legend_height s"

text \<open>
  \<open>MolDraw2D::setupDrawMolecule\<close>.  It resets the transform, prepares a copy of the
  molecule and, when that copy has no conformer, returns it at once; otherwise it
  clears the background for the first molecule, runs the extraction passes, restores
  the transform and computes the scale when that is still needed.
\<close>

definition setupDrawMolecule ::
  "Collaborators \<Rightarrow> MolDrawOptions \<Rightarrow> ROMol \<Rightarrow> int \<Rightarrow> int \<Rightarrow> MolDraw2D \<Rightarrow>
   DrawError + (ROMol \<times> MolDraw2D)" where
  "setupDrawMolecule C opts mol width height s =
     (let s1 = s\<lparr>scale := 1, x_trans := 0, y_trans := 0, x_offset := 0, y_offset := 0,
                 x_min := 0, y_min := 0\<rparr>;
          rwmol = prepare C mol
      in if getNumConformers rwmol = 0 then Inr (rwmol, s1)
         else
           (let s2 = (if activeMolIdx s1 = 0 \<and> clearBackground opts
                      then s1\<lparr>canvas := canvas s1 @ [ClearDrawing]\<rparr> else s1)
            in if \<not> hasRoom s2 then Inl PreconditionFailed
               else
                 (let s3 = storeExtracted (extractAll C rwmol) s2;
                      s4 = s3\<lparr>scale := scale s, x_trans := x_trans s, y_trans := y_trans s,
                              x_offset := x_offset s, y_offset := y_offset s,
                              x_min := x_min s, y_min := y_min s\<rparr>
                  in if activeMolIdx s4 = 0 \<and> needs_scale s4 then
                       (if width \<le> 0 \<or> height \<le> 0 then Inl PreconditionFailed
                        else
                          case calculateScale (ScaleOptions.truncate opts) (labelFootprints C)
                                 (radicalFootprints C) (supportsAnnotations C)
                                 (annotations_stack s4 ! nat (activeMolIdx s4)) width height
                                 (at_cds_stack s4 ! nat (activeMolIdx s4))
                                 (pre_shapes_stack s4 ! nat (activeMolIdx s4))
                                 (post_shapes_stack s4 ! nat (activeMolIdx s4)) s4 of
                            None \<Rightarrow> Inl Diverges
                          | Some s5 \<Rightarrow> Inr (rwmol, s5\<lparr>needs_scale := False\<rparr>))
                     else Inr (rwmol, s4))))"

text \<open>\<open>MolDraw2D::drawRect\<close>.\<close>

definition drawRect :: "MolDraw2D \<Rightarrow> Point2D \<Rightarrow> Point2D \<Rightarrow> Event list" where
  "drawRect s cds1 cds2 =
     [DrawPolygon ([cds1, Point2D (ptx cds1) (pty cds2), cds2, Point2D (ptx cds2) (pty cds1)]
                   @ (if \<not> fill_polys s then [cds1] else []))]"

text \<open>
  The body of the loop over the atom regions in \<open>setupMoleculeDraw\<close>: for a region of
  more than one atom, a grey rectangle around the coordinates of its atoms, enlarged
  by a fifth.  The coordinates are read from the array of the active molecule.
\<close>

definition regionBox :: "Point2D list \<Rightarrow> nat list \<Rightarrow> (Point2D \<times> Point2D) option" where
  "regionBox cds region =
     do {
       first \<leftarrow> vecAt cds (region ! 0);
       (minv, maxv) \<leftarrow> fold (\<lambda>idx acc.
            do {
              (mn, mx) \<leftarrow> acc;
              pt \<leftarrow> vecAt cds idx;
              Some (Point2D (min (ptx mn) (ptx pt)) (min (pty mn) (pty pt)),
                    Point2D (max (ptx mx) (ptx pt)) (max (pty mx) (pty pt)))
            }) region (Some (first, first));
       let size = pmul (psub maxv minv) 0.2;
       Some (psub minv (pdiv size 2), padd maxv (pdiv size 2))
     }"

fun drawRegions :: "nat list list \<Rightarrow> MolDraw2D \<Rightarrow> DrawError + MolDraw2D" where
  "drawRegions [] s = Inr s"
| "drawRegions (region # rest) s =
     (if length region > 1 then
        (case activeEntry (at_cds_stack s) s of
           None \<Rightarrow> Inl UndefinedRead
         | Some cds \<Rightarrow>
             (case regionBox cds region of
                None \<Rightarrow> Inl UndefinedRead
              | Some (minv, maxv) \<Rightarrow>
                  drawRegions rest
                    (s\<lparr>canvas := canvas s @ [SetColour (DrawColour 0.8 0.8 0.8)]
                                 @ drawRect s minv maxv\<rparr>)))
      else drawRegions rest s)"

text \<open>\<open>MolDraw2D::setupMoleculeDraw\<close>.\<close>

definition setupMoleculeDraw ::
  "Collaborators \<Rightarrow> MolDrawOptions \<Rightarrow> ROMol \<Rightarrow> MolDraw2D \<Rightarrow> DrawError + (ROMol \<times> MolDraw2D)" where
  "setupMoleculeDraw C opts mol s =
     (case setupDrawMolecule C opts mol (panel_width s) (drawHeight s) s of
        Inl e \<Rightarrow> Inl e
      | Inr (draw_mol, s1) \<Rightarrow>
          (let s2 = (if includeAtomTags opts then s1\<lparr>canvas := canvas s1 @ [TagAtoms]\<rparr> else s1)
           in case drawRegions (atomRegions opts) s2 of
                Inl e \<Rightarrow> Inl e
              | Inr s3 \<Rightarrow> Inr (draw_mol, s3)))"

text \<open>
  \<open>MolDraw2D::drawMolecule\<close> (the overload that does the work).  After the set-up a
  molecule without conformer ends the call.  Otherwise the pass draws the shapes
  registered before the molecule, the highlights, the bonds, and finishes with labels
  and annotations; of these only \<open>drawBonds\<close> is expanded, into its calls of
  \<open>drawBond\<close>.  None of the functions left unexpanded pushes or pops a render context
  (the source calls \<open>pushDrawDetails\<close> and \<open>popDrawDetails\<close> only in \<open>drawMolecule\<close>,
  \<open>drawMoleculeWithHighlights\<close>, \<open>get2DCoordsMol\<close>, \<open>drawReaction\<close>, \<open>setScale\<close> and the
  batch \<open>calculateScale\<close>).  The call \<open>popDrawDetails()\<close> at the end of the source
  function is commented out.
\<close>

definition drawMolecule ::
  "Collaborators \<Rightarrow> MolDrawOptions \<Rightarrow> ROMol \<Rightarrow> nat list option \<Rightarrow> MolDraw2D \<Rightarrow>
   DrawError + MolDraw2D" where
  "drawMolecule C opts mol highlight_atoms s =
     (let origWidth = line_width s;
          s1 = pushDrawDetails s
      in case setupMoleculeDraw C opts mol s1 of
           Inl e \<Rightarrow> Inl e
         | Inr (draw_mol, s2) \<Rightarrow>
             if getNumConformers draw_mol = 0 then Inr s2
             else
               (case activeEntry (pre_shapes_stack s2) s2 of
                  None \<Rightarrow> Inl UndefinedRead
                | Some pre \<Rightarrow>
                   (case activeEntry (at_cds_stack s2) s2 of
                      None \<Rightarrow> Inl UndefinedRead
                    | Some cds \<Rightarrow>
                       (let e1 = (if pre \<noteq> [] then [DrawShapes pre] else []);
                            e2 = (if continuousHighlight opts then [Call ''doContinuousHighlighting'']
                                  else if circleAtoms opts \<and> highlight_atoms \<noteq> None
                                  then [Call ''circleAtoms''] else []);
                            fp = (if \<not> continuousHighlight opts \<and> circleAtoms opts
                                     \<and> highlight_atoms \<noteq> None then True else fill_polys s2);
                            e3 = map (\<lambda>(bond, this_idx, nbr_idx). DrawBond (getIdx bond) this_idx nbr_idx)
                                   (drawBonds draw_mol (length cds));
                            e4 = [Call ''finishMoleculeDraw'', SetLineWidth origWidth];
                            e5 = (if includeMetadata opts then [Call ''updateMetadata''] else [])
                        in Inr (s2\<lparr>fill_polys := fp, line_width := origWidth,
                                    canvas := canvas s2 @ e1 @ e2 @ e3 @ e4 @ e5\<rparr>)))))"

subsection \<open>The render context of a drawer\<close>

text \<open>
  Two drawer states have the same render context when the index of the active molecule
  and the depths of the seven per-molecule stacks agree.
\<close>

definition sameContext :: "MolDraw2D \<Rightarrow> MolDraw2D \<Rightarrow> bool" where
  "sameContext s s' = (activeMolIdx s' = activeMolIdx s \<and> stackDepths s' = stackDepths s)"

section \<open>Concrete inputs\<close>

text \<open>A concrete drawer state used to run the transform: scale 2, a 300 pixel panel
  with a 20 pixel legend, panel offsets (300, 10).\<close>

definition exampleScaleState :: ScaleState where
  "exampleScaleState =
     \<lparr>scale = 2, x_min = -1, y_min = -3, x_range = 4, y_range = 6,
      x_trans = 1/2, y_trans = 1/4, x_offset = 300, y_offset = 10,
      panel_height = 300, legend_height = 20\<rparr>"



text \<open>Concrete inputs of the scale computation: a drawer state as the constructor
  leaves it (on a 300 pixel panel), options without padding and the default options
  (padding 5 per cent, no fixed scale, no fixed bond length).\<close>

definition initialScaleState :: ScaleState where
  "initialScaleState =
     \<lparr>scale = 1, x_min = 0, y_min = 0, x_range = 0, y_range = 0,
      x_trans = 0, y_trans = 0, x_offset = 0, y_offset = 0,
      panel_height = 300, legend_height = 0\<rparr>"



text \<open>
  A chain of four atoms with a double bond in the middle, \<open>0 - 1 = 2 - 3\<close>, drawn with
  bond length 1: atoms 1 and 2 on the x axis, atoms 0 and 3 above it.
\<close>

definition plainBond :: "nat \<Rightarrow> nat \<Rightarrow> nat \<Rightarrow> BondType \<Rightarrow> Bond" where
  "plainBond i a b t =
     \<lparr>getIdx = i, getBeginAtomIdx = a, getEndAtomIdx = b, getBondType = t,
      getBondDir = NONE, getStereo = STEREONONE, getIsAromatic = False, getQuery = None\<rparr>"

definition dieneCoords :: "Point2D list" where
  "dieneCoords = [Point2D (-3/5) (4/5), Point2D 0 0, Point2D 1 0, Point2D (8/5) (4/5)]"

definition dieneDoubleBond :: Bond where
  "dieneDoubleBond = plainBond 1 1 2 DOUBLE"

definition dieneMol :: ROMol where
  "dieneMol =
     \<lparr>numAtoms = 4,
      bonds = [plainBond 0 0 1 SINGLE, dieneDoubleBond, plainBond 2 2 3 SINGLE],
      bondRings = [],
      conformers = [dieneCoords]\<rparr>"

text \<open>
  A ring of four atoms on the unit square, \<open>0 - 1 = 2 - 3 = 0\<close>, with its one ring of
  the bonds 0 to 3.
\<close>

definition squareCoords :: "Point2D list" where
  "squareCoords = [Point2D 0 0, Point2D 1 0, Point2D 1 1, Point2D 0 1]"

definition squareDoubleBond :: Bond where
  "squareDoubleBond = plainBond 1 1 2 DOUBLE"

definition squareMol :: ROMol where
  "squareMol =
     \<lparr>numAtoms = 4,
      bonds = [plainBond 0 0 1 SINGLE, squareDoubleBond, plainBond 2 2 3 SINGLE,
               plainBond 3 3 0 DOUBLE],
      bondRings = [[0, 1, 2, 3]],
      conformers = [squareCoords]\<rparr>"





text \<open>
  An atom without a symbol at the origin, bonded to an atom straight above it, with a
  note to place.  The text metrics are such that a note clashes with the bond when it
  lies within 0.1 of the bond line above the atom, with an atom label when it lies more
  than 0.2 to the right, and with an earlier annotation everywhere.  (The clash tests
  see the position after \<open>getAtomCoords\<close>, which at the initial scale state keeps x and
  turns y into 300 - y.)
\<close>

definition noteNearBond :: "Point2D \<Rightarrow> bool" where
  "noteNearBond note_pos = (\<bar>ptx note_pos\<bar> < 1/10 \<and> pty note_pos < 300)"

definition noteRightOfAtom :: "Point2D \<Rightarrow> bool" where
  "noteRightOfAtom note_pos = (1/5 < ptx note_pos)"

definition crowdedClash :: "Point2D \<Rightarrow> int" where
  "crowdedClash = doesNoteClash noteNearBond noteRightOfAtom (\<lambda>note_pos. True)"

definition exampleNote :: AnnotationType where
  "exampleNote = \<lparr>note_text = ''a'', rect = defaultStringRect, align = MIDDLE\<rparr>"

definition twoAtomCoords :: "Point2D list" where
  "twoAtomCoords = [Point2D 0 0, Point2D 0 1]"

definition noSymbols :: "string list" where
  "noSymbols = [[], []]"

text \<open>
  The single bond between the two atoms, with a note to place along it.  Here a note
  clashes with a neighbouring bond when it lies more than 0.7 to the right, with an atom
  label when it lies more than 0.5 to the left, and with an earlier annotation
  everywhere.
\<close>

definition noteFarRight :: "Point2D \<Rightarrow> bool" where
  "noteFarRight note_pos = (7/10 < ptx note_pos)"

definition noteFarLeft :: "Point2D \<Rightarrow> bool" where
  "noteFarLeft note_pos = (ptx note_pos < - (1/2))"

definition crowdedBondClash :: "Point2D \<Rightarrow> int" where
  "crowdedBondClash = doesNoteClash noteFarRight noteFarLeft (\<lambda>note_pos. True)"

definition twoAtomBond :: Bond where
  "twoAtomBond = plainBond 0 0 1 SINGLE"

text \<open>
  A drawer as the constructor leaves it (300 by 300, no active molecule, empty arrays),
  the chain molecule without any conformer, collaborators whose preparation leaves the
  molecule as it is, the default options, and options that name one atom region.
\<close>

definition freshDrawer :: MolDraw2D where
  "freshDrawer =
     \<lparr>scale = 1, x_min = 0, y_min = 0, x_range = 0, y_range = 0,
      x_trans = 0, y_trans = 0, x_offset = 0, y_offset = 0,
      panel_height = 300, legend_height = 0,
      needs_scale = True, panel_width = 300, fill_polys = True, line_width = 2,
      activeMolIdx = -1,
      at_cds_stack = [], atomic_nums_stack = [], atom_syms_stack = [],
      annotations_stack = [], pre_shapes_stack = [], post_shapes_stack = [],
      radicals_stack = [], canvas = []\<rparr>"

definition noCoordsMol :: ROMol where
  "noCoordsMol = dieneMol\<lparr>conformers := []\<rparr>"

definition plainCollaborators :: Collaborators where
  "plainCollaborators =
     \<lparr>prepare = (\<lambda>mol. mol),
      extractAll = (\<lambda>mol. \<lparr>x_at_cds = hd (conformers mol), x_atomic_nums = [6, 6, 6, 6],
                           x_atom_syms = [[], [], [], []], x_annotations = [],
                           x_pre_shapes = [], x_post_shapes = [], x_radicals = []\<rparr>),
      labelFootprints = (\<lambda>s. []),
      radicalFootprints = (\<lambda>s. []),
      supportsAnnotations = True\<rparr>"

definition defaultOptions :: MolDrawOptions where
  "defaultOptions =
     \<lparr>padding = 1/20, fixedBondLength = -1, fixedScale = -1,
      clearBackground = True, includeAtomTags = False, atomRegions = [],
      continuousHighlight = True, circleAtoms = True, includeMetadata = True\<rparr>"

definition regionOptions :: MolDrawOptions where
  "regionOptions = defaultOptions\<lparr>atomRegions := [[0, 1]]\<rparr>"

section \<open>Properties of the coordinate transform\<close>

text \<open>
  Claim C1.  For a fixed drawer state with nonzero scale, converting a point from
  molecule space to device space with \<open>getDrawCoords\<close> and back with
  \<open>getAtomCoords\<close> yields the point again, and converting a device point to molecule
  space and back yields the device point again: the two functions are mutual inverses.
  (Over the reals the round trip is exact; the floating-point tolerance of the source
  is the rounding that the idealisation leaves out.)
\<close>

theorem getDrawCoords_getAtomCoords_inverse:
  assumes "scale d \<noteq> 0"
  shows "getAtomCoords d (ptx (getDrawCoords d p), pty (getDrawCoords d p)) = p
       \<and> getDrawCoords d (getAtomCoords d q) = Point2D (fst q) (snd q)"
  using assms
  by (cases p) (simp add: getDrawCoords_def getAtomCoords_def Let_def field_simps)

theorem getDrawCoords_getAtomCoords_inverse_witness:
  "scale exampleScaleState \<noteq> 0
   \<and> getDrawCoords exampleScaleState (Point2D 1 2) = Point2D 305 (559/2)
   \<and> getAtomCoords exampleScaleState (305, 559/2) = Point2D 1 2
   \<and> getDrawCoords exampleScaleState (getAtomCoords exampleScaleState (7, 9)) = Point2D 7 9"
  using getDrawCoords_getAtomCoords_inverse [of exampleScaleState "Point2D 1 2" "(7, 9)"]
  by (simp add: exampleScaleState_def getDrawCoords_def getAtomCoords_def panelHeight_def Let_def)

text \<open>
  Claim C4, as stated: the device y coordinate would be
  \<open>(panelHeight - legendHeight - scale * (p.y - y_min + y_trans)) - y_offset\<close>.
  The source subtracts the vertical pixel offset \<^emph>\<open>before\<close> it flips the axis, so the
  offset comes out added.  At the example state (vertical offset 10) and the point
  \<open>(1, 2)\<close> the device y is \<open>559/2\<close>, while the stated formula gives \<open>519/2\<close>.
\<close>

theorem getDrawCoords_y_offset_counterexample:
  "pty (getDrawCoords exampleScaleState (Point2D 1 2)) = 559/2
   \<and> (real_of_int (panelHeight exampleScaleState) - real_of_int (legend_height exampleScaleState)
        - scale exampleScaleState * (pty (Point2D 1 2) - y_min exampleScaleState + y_trans exampleScaleState))
       - real_of_int (y_offset exampleScaleState) = 519/2
   \<and> pty (getDrawCoords exampleScaleState (Point2D 1 2)) \<noteq>
       (real_of_int (panelHeight exampleScaleState) - real_of_int (legend_height exampleScaleState)
        - scale exampleScaleState * (pty (Point2D 1 2) - y_min exampleScaleState + y_trans exampleScaleState))
       - real_of_int (y_offset exampleScaleState)"
  by (simp add: exampleScaleState_def getDrawCoords_def panelHeight_def Let_def)

text \<open>
  Claim C4, amended.  For every point, \<open>getDrawCoords\<close> scales the translated
  coordinates, adds the horizontal pixel offset to x, subtracts the vertical pixel
  offset from the scaled y and then flips the vertical axis relative to panel height
  minus legend height: the device x is \<open>scale * (p.x - x_min + x_trans) + x_offset\<close> and
  the device y is \<open>(panelHeight - legendHeight - scale * (p.y - y_min + y_trans)) + y_offset\<close>.
\<close>

theorem getDrawCoords_formula:
  "ptx (getDrawCoords d p) = scale d * (ptx p - x_min d + x_trans d) + real_of_int (x_offset d)
   \<and> pty (getDrawCoords d p) =
       (real_of_int (panelHeight d) - real_of_int (legend_height d)
        - scale d * (pty p - y_min d + y_trans d)) + real_of_int (y_offset d)"
  by (simp add: getDrawCoords_def Let_def)

section \<open>Properties of the scale and layout engine\<close>

lemma DBL_MAX_large: "1000000 < DBL_MAX"
  by (simp add: DBL_MAX_def)

lemma boundingBox_single_atom: "boundingBox [Point2D 3 5] [] [] = (3, 5, 3, 5)"
  using DBL_MAX_large by (simp add: boundingBox_def growBoxAll_def growBox_def Let_def)


text \<open>
  Claim C6, as stated: a span below \<open>1e-4\<close> would become a unit span, the range 1 and
  the minimum lowered by 0.5.  For a molecule of one atom at \<open>(3, 5)\<close> the span along x
  is 0; the source sets the range to 2 and lowers the minimum by 1, to 2 (the claim
  gives range 1 and minimum 2.5).
\<close>

theorem degenerate_span_unit_counterexample:
  "boundingBox [Point2D 3 5] [] [] = (3, 5, 3, 5)
   \<and> x_range (initialSpans initialScaleState (boundingBox [Point2D 3 5] [] [])) = 2
   \<and> x_min (initialSpans initialScaleState (boundingBox [Point2D 3 5] [] [])) = 2
   \<and> x_range (initialSpans initialScaleState (boundingBox [Point2D 3 5] [] [])) \<noteq> 1
   \<and> x_min (initialSpans initialScaleState (boundingBox [Point2D 3 5] [] [])) \<noteq> 3 - 0.5"
  by (simp add: boundingBox_single_atom initialSpans_def Let_def)

text \<open>
  Claim C6, amended.  In the single-molecule scale calculation, whenever the span of
  the bounding box (over atom coordinates and the registered shape points) along an
  axis is below \<open>1e-4\<close>, that span is normalised to a span of 2 centred on the existing
  value: the resulting range along that axis equals 2 and the minimum is lowered by 1
  from the degenerate value.
\<close>

theorem degenerate_span_normalised:
  assumes "boundingBox cds pre post = (xmin, ymin, xmax, ymax)"
  shows "(xmax - xmin < 1/10000 \<longrightarrow>
            x_range (initialSpans d (boundingBox cds pre post)) = 2
          \<and> x_min (initialSpans d (boundingBox cds pre post)) = xmin - 1)
       \<and> (ymax - ymin < 1/10000 \<longrightarrow>
            y_range (initialSpans d (boundingBox cds pre post)) = 2
          \<and> y_min (initialSpans d (boundingBox cds pre post)) = ymin - 1)"
  by (simp add: assms initialSpans_def Let_def)

theorem degenerate_span_normalised_witness:
  "boundingBox [Point2D 3 5] [] [] = (3, 5, 3, 5)
   \<and> (3::real) - 3 < 1/10000
   \<and> x_range (initialSpans initialScaleState (boundingBox [Point2D 3 5] [] [])) = 2
   \<and> x_min (initialSpans initialScaleState (boundingBox [Point2D 3 5] [] [])) = 3 - 1
   \<and> (5::real) - 5 < 1/10000
   \<and> y_range (initialSpans initialScaleState (boundingBox [Point2D 3 5] [] [])) = 2
   \<and> y_min (initialSpans initialScaleState (boundingBox [Point2D 3 5] [] [])) = 5 - 1"
  using degenerate_span_normalised [OF boundingBox_single_atom, of initialScaleState]
  by (simp add: boundingBox_single_atom)














section \<open>Every bond is drawn once\<close>

lemma length_filter_eq_upt: "length (filter (\<lambda>a. a = lo) [0..<n]) = (if lo < n then 1 else 0)"
  by (induction n) auto

lemma drawnFrom_lower_end:
  assumes "getBeginAtomIdx b \<noteq> getEndAtomIdx b" "getBeginAtomIdx b < n"
    "getEndAtomIdx b < n" "n \<le> n_cds"
  shows "filter (\<lambda>a. drawnFrom n_cds a b) [0..<n]
       = filter (\<lambda>a. a = min (getBeginAtomIdx b) (getEndAtomIdx b)) [0..<n]"
  using assms by (intro filter_cong) (auto simp: drawnFrom_def getOtherAtomIdx_def min_def)

lemma length_drawnFrom:
  assumes "getBeginAtomIdx b \<noteq> getEndAtomIdx b" "getBeginAtomIdx b < n"
    "getEndAtomIdx b < n" "n \<le> n_cds"
  shows "length (filter (\<lambda>a. drawnFrom n_cds a b) [0..<n]) = 1"
  using assms by (simp add: drawnFrom_lower_end length_filter_eq_upt min_def)

lemma mset_concat_filter_Cons:
  "mset (concat (map (\<lambda>a. filter (P a) (b # bs)) as))
   = mset (map (\<lambda>a. b) (filter (\<lambda>a. P a b) as))
     + mset (concat (map (\<lambda>a. filter (P a) bs) as))"
  by (induction as) auto

lemma mset_const_map_one: "length xs = 1 \<Longrightarrow> mset (map (\<lambda>a. b) xs) = {#b#}"
  by (cases xs) auto

lemma mset_drawn:
  assumes "list_all (\<lambda>b. getBeginAtomIdx b \<noteq> getEndAtomIdx b
                 \<and> getBeginAtomIdx b < n \<and> getEndAtomIdx b < n) bs" "n \<le> n_cds"
  shows "mset (concat (map (\<lambda>a. filter (drawnFrom n_cds a) bs) [0..<n])) = mset bs"
  using assms
proof (induction bs)
  case Nil
  then show ?case by (induction n) auto
next
  case (Cons b bs)
  have one: "length (filter (\<lambda>a. drawnFrom n_cds a b) [0..<n]) = 1"
    using Cons.prems by (intro length_drawnFrom) auto
  have ih: "mset (concat (map (\<lambda>a. filter (drawnFrom n_cds a) bs) [0..<n])) = mset bs"
    using Cons by simp
  show ?case
    unfolding mset_concat_filter_Cons mset_const_map_one[OF one] ih by simp
qed

lemma map_fst_drawBonds:
  "map fst (drawBonds mol n_cds)
   = concat (map (\<lambda>a. filter (drawnFrom n_cds a) (bonds mol)) [0..<numAtoms mol])"
  by (simp add: drawBonds_def map_concat comp_def getAtomBonds_def drawnFrom_def
      conj_commute conj_left_commute cong: filter_cong)

lemma set_drawBonds:
  "(bond, this_idx, nbr_idx) \<in> set (drawBonds mol n_cds) \<Longrightarrow>
     bond \<in> set (bonds mol) \<and> this_idx < nbr_idx \<and> nbr_idx = getOtherAtomIdx bond this_idx
     \<and> (getBeginAtomIdx bond = this_idx \<or> getEndAtomIdx bond = this_idx)"
  by (auto simp: drawBonds_def getAtomBonds_def)

lemmas diene_defs = dieneMol_def dieneDoubleBond_def plainBond_def dieneCoords_def

lemma wellFormed_dieneMol: "wellFormedMol dieneMol"
  by (simp add: wellFormedMol_def diene_defs upt_rec)

lemma drawBonds_dieneMol:
  "drawBonds dieneMol 4 =
     [(plainBond 0 0 1 SINGLE, 0, 1), (dieneDoubleBond, 1, 2), (plainBond 2 2 3 SINGLE, 2, 3)]"
  by (simp add: drawBonds_def getAtomBonds_def getOtherAtomIdx_def diene_defs upt_rec)

text \<open>
  Claim C10.  For a well-formed molecule whose atom-coordinate array covers all atom
  indices, \<open>drawBonds\<close> calls \<open>drawBond\<close> exactly once per bond: the bonds passed, taken
  with their multiplicity, are the bonds of the molecule.  Each bond is met from both
  of its end atoms but is drawn only from the end with the lower index, with the
  neighbour's index the higher one.
\<close>

theorem drawBonds_once_per_bond:
  assumes "wellFormedMol mol" "numAtoms mol \<le> n_cds"
  shows "mset (map fst (drawBonds mol n_cds)) = mset (bonds mol)
       \<and> (\<forall>bond \<in> set (bonds mol).
            bond \<in> set (getAtomBonds mol (getBeginAtomIdx bond))
          \<and> bond \<in> set (getAtomBonds mol (getEndAtomIdx bond)))
       \<and> (\<forall>(bond, this_idx, nbr_idx) \<in> set (drawBonds mol n_cds).
            this_idx < nbr_idx
          \<and> this_idx = min (getBeginAtomIdx bond) (getEndAtomIdx bond)
          \<and> nbr_idx = max (getBeginAtomIdx bond) (getEndAtomIdx bond))"
proof -
  have wf: "list_all (\<lambda>b. getBeginAtomIdx b \<noteq> getEndAtomIdx b
                 \<and> getBeginAtomIdx b < numAtoms mol \<and> getEndAtomIdx b < numAtoms mol)
              (bonds mol)"
    using assms(1) by (simp add: wellFormedMol_def)
  have 1: "mset (map fst (drawBonds mol n_cds)) = mset (bonds mol)"
    unfolding map_fst_drawBonds by (rule mset_drawn[OF wf assms(2)])
  have 2: "\<forall>bond \<in> set (bonds mol).
            bond \<in> set (getAtomBonds mol (getBeginAtomIdx bond))
          \<and> bond \<in> set (getAtomBonds mol (getEndAtomIdx bond))"
    by (simp add: getAtomBonds_def)
  have 3: "\<forall>(bond, this_idx, nbr_idx) \<in> set (drawBonds mol n_cds).
            this_idx < nbr_idx
          \<and> this_idx = min (getBeginAtomIdx bond) (getEndAtomIdx bond)
          \<and> nbr_idx = max (getBeginAtomIdx bond) (getEndAtomIdx bond)"
    using set_drawBonds[of _ _ _ mol n_cds]
    by (fastforce simp: getOtherAtomIdx_def min_def max_def split: if_splits)
  show ?thesis using 1 2 3 by blast
qed

theorem drawBonds_once_per_bond_witness:
  "wellFormedMol dieneMol \<and> numAtoms dieneMol \<le> 4
   \<and> drawBonds dieneMol 4 =
       [(plainBond 0 0 1 SINGLE, 0, 1), (dieneDoubleBond, 1, 2), (plainBond 2 2 3 SINGLE, 2, 3)]
   \<and> mset (map fst (drawBonds dieneMol 4)) = mset (bonds dieneMol)"
proof -
  have n: "numAtoms dieneMol \<le> 4" by (simp add: dieneMol_def)
  have m: "mset (map fst (drawBonds dieneMol 4)) = mset (bonds dieneMol)"
    using drawBonds_once_per_bond[OF wellFormed_dieneMol n] by (rule conjunct1)
  show ?thesis by (intro conjI wellFormed_dieneMol n drawBonds_dieneMol m)
qed

section \<open>The two lines of a double bond\<close>

lemma calcPerpendicular_defined:
  "cds1 \<noteq> cds2 \<Longrightarrow> \<exists>p. calcPerpendicular cds1 cds2 = Some p"
  by (cases cds1; cases cds2) (auto simp: calcPerpendicular_def Let_def)

lemma unit_quotients:
  fixes a b :: real
  assumes "sqrt (a * a + b * b) \<noteq> 0"
  shows "(a / sqrt (a * a + b * b)) * (a / sqrt (a * a + b * b))
       + (b / sqrt (a * a + b * b)) * (b / sqrt (a * a + b * b)) = 1"
proof -
  define l where "l = sqrt (a * a + b * b)"
  have l0: "l \<noteq> 0" using assms by (simp add: l_def)
  have nn: "0 \<le> a * a + b * b" by simp
  have sq: "l * l = a * a + b * b"
    unfolding l_def using nn by (simp only: real_sqrt_mult_self abs_of_nonneg)
  have "(a / l) * (a / l) + (b / l) * (b / l) = (a * a + b * b) / (l * l)"
    by (simp add: add_divide_distrib)
  also have "\<dots> = 1" using l0 by (simp add: sq[symmetric])
  finally show ?thesis by (simp add: l_def)
qed

lemma calcPerpendicular_unit:
  assumes "calcPerpendicular cds1 cds2 = Some p"
  shows "unitPerpTo (psub cds1 cds2) p"
proof -
  let ?a = "- (pty cds1 - pty cds2)" and ?b = "ptx cds1 - ptx cds2"
  let ?l = "sqrt (?a * ?a + ?b * ?b)"
  have l0: "?l \<noteq> 0" and p: "p = Point2D (?a / ?l) (?b / ?l)"
    using assms by (auto simp: calcPerpendicular_def Let_def split: if_splits)
  have 1: "lengthSq p = 1"
    unfolding p lengthSq_def Point2D.sel by (rule unit_quotients[OF l0])
  have 2: "dotProduct p (psub cds1 cds2) = 0"
    using l0 by (simp add: p dotProduct_def psub_def field_simps)
  show ?thesis using 1 2 by (simp add: unitPerpTo_def)
qed

lemma calcInnerPerpendicular_defined:
  "cds1 \<noteq> cds2 \<Longrightarrow> \<exists>p. calcInnerPerpendicular cds1 cds2 cds3 = Some p"
  using calcPerpendicular_defined[of cds1 cds2]
  by (auto simp: calcInnerPerpendicular_def Let_def)

lemma calcInnerPerpendicular_unit:
  assumes "calcInnerPerpendicular cds1 cds2 cds3 = Some p"
  shows "unitPerpTo (psub cds1 cds2) p"
proof -
  obtain q where q: "calcPerpendicular cds1 cds2 = Some q"
    and p: "p = q \<or> p = Point2D (ptx q * (-1)) (pty q * (-1))"
    using assms by (auto simp: calcInnerPerpendicular_def Let_def split: bind_splits if_splits)
  from calcPerpendicular_unit[OF q] p show ?thesis
    by (auto simp: unitPerpTo_def lengthSq_def dotProduct_def)
qed

lemma getAtomBonds_subset: "b \<in> set (getAtomBonds mol a) \<Longrightarrow> b \<in> set (bonds mol)"
  by (simp add: getAtomBonds_def)

lemma wellFormed_bond_atoms:
  assumes "wellFormedMol mol" "b \<in> set (bonds mol)"
  shows "getBeginAtomIdx b < numAtoms mol" "getEndAtomIdx b < numAtoms mol"
        "getBeginAtomIdx b \<noteq> getEndAtomIdx b" "getOtherAtomIdx b a < numAtoms mol"
  using assms by (auto simp: wellFormedMol_def list_all_iff getOtherAtomIdx_def)

lemma calc_perp_defined:
  assumes "wellFormedMol mol" "numAtoms mol \<le> length at_cds" "cds1 \<noteq> cds2"
  shows "calc_perp mol cds1 cds2 at_cds bond ring \<noteq> None"
proof (cases "find (\<lambda>bond2. getIdx bond2 \<noteq> getIdx bond \<and> getIdx bond2 \<in> set ring)
             (getAtomBonds mol (getBeginAtomIdx bond))")
  case None
  then show ?thesis by (simp add: calc_perp_def)
next
  case (Some bond2)
  then have "bond2 \<in> set (getAtomBonds mol (getBeginAtomIdx bond))"
    by (auto simp: find_Some_iff)
  then have "getOtherAtomIdx bond2 (getBeginAtomIdx bond) < length at_cds"
    using wellFormed_bond_atoms(4)[OF assms(1) getAtomBonds_subset] assms(2)
    by (meson less_le_trans)
  moreover obtain p where "calcInnerPerpendicular cds1 cds2 (at_cds ! getOtherAtomIdx bond2 (getBeginAtomIdx bond)) = Some p"
    using calcInnerPerpendicular_defined[OF assms(3)] by blast
  ultimately show ?thesis using Some by (simp add: calc_perp_def vecAt_def Let_def)
qed

lemma calc_perp_unit:
  assumes "calc_perp mol cds1 cds2 at_cds bond ring = Some (Some p)"
  shows "unitPerpTo (psub cds1 cds2) p"
  using assms calcInnerPerpendicular_unit
  by (auto simp: calc_perp_def Let_def split: option.splits bind_splits)

lemma ring_ok_defined:
  "list_all (\<lambda>i. i < length (bonds mol)) ring \<Longrightarrow> ring_ok mol bond ring \<noteq> None"
  by (induction ring) (auto simp: vecAt_def)

lemma firstRingPerp_defined:
  assumes "wellFormedMol mol" "numAtoms mol \<le> length at_cds" "cds1 \<noteq> cds2"
    and "list_all (list_all (\<lambda>i. i < length (bonds mol))) rings"
  shows "firstRingPerp mol bond cds1 cds2 at_cds rings \<noteq> None"
  using assms(4)
proof (induction rings)
  case Nil
  then show ?case by simp
next
  case (Cons ring rest)
  have r: "ring_ok mol bond ring \<noteq> None" using Cons.prems by (simp add: ring_ok_defined)
  have c: "calc_perp mol cds1 cds2 at_cds bond ring \<noteq> None"
    by (rule calc_perp_defined[OF assms(1,2,3)])
  show ?case using r c Cons by (auto split: option.splits bool.splits)
qed

lemma firstRingPerp_unit:
  "firstRingPerp mol bond cds1 cds2 at_cds rings = Some (Some p) \<Longrightarrow> unitPerpTo (psub cds1 cds2) p"
  by (induction rings) (auto split: option.splits bool.splits dest: calc_perp_unit)


lemma bondInsideRing_defined:
  assumes "wellFormedMol mol" "numAtoms mol \<le> length at_cds" "cds1 \<noteq> cds2"
    and "numBondRings mol (getIdx bond) \<noteq> 0"
  shows "bondInsideRing mol bond cds1 cds2 at_cds \<noteq> None"
proof -
  let ?rings = "filter (\<lambda>ring. getIdx bond \<in> set ring) (bondRings mol)"
  have ne: "?rings \<noteq> []" using assms(4) by (simp add: numBondRings_def)
  have ok: "list_all (list_all (\<lambda>i. i < length (bonds mol))) ?rings"
    using assms(1) by (auto simp: wellFormedMol_def list_all_iff)
  have f: "firstRingPerp mol bond cds1 cds2 at_cds ?rings \<noteq> None"
    by (rule firstRingPerp_defined[OF assms(1,2,3) ok])
  obtain ring rest where rr: "?rings = ring # rest" using ne by (cases ?rings) auto
  have c: "calc_perp mol cds1 cds2 at_cds bond ring \<noteq> None"
    by (rule calc_perp_defined[OF assms(1,2,3)])
  obtain q where q: "calcPerpendicular cds1 cds2 = Some q"
    using calcPerpendicular_defined[OF assms(3)] by blast
  show ?thesis
    unfolding bondInsideRing_def Let_def rr[symmetric] using f c q
    by (auto simp: rr split: option.splits)
qed

lemma bondInsideRing_unit:
  assumes "bondInsideRing mol bond cds1 cds2 at_cds = Some p"
  shows "unitPerpTo (psub cds1 cds2) p"
  using assms
  by (auto simp: bondInsideRing_def Let_def split: option.splits if_splits list.splits
      dest: firstRingPerp_unit calc_perp_unit calcPerpendicular_unit)

lemma wellFormed_distinct_idx:
  assumes "wellFormedMol mol"
  shows "distinct (map getIdx (getAtomBonds mol a))"
proof -
  have "distinct (map getIdx (bonds mol))"
    using assms by (simp add: wellFormedMol_def)
  then show ?thesis
    unfolding getAtomBonds_def by (rule distinct_map_filter)
qed

lemma find_other_idx:
  assumes "distinct (map getIdx bs)" "1 < length bs"
  shows "find (\<lambda>b2. getIdx b2 \<noteq> k) bs \<noteq> None"
proof -
  obtain b1 b2 rest where bs: "bs = b1 # b2 # rest"
    using assms(2) by (cases bs; cases "tl bs") auto
  then have "getIdx b1 \<noteq> getIdx b2" using assms(1) by auto
  then have "getIdx b1 \<noteq> k \<or> getIdx b2 \<noteq> k" by auto
  then show ?thesis by (auto simp: bs)
qed

lemma bondInsideDoubleBond_defined:
  assumes "wellFormedMol mol" "bond \<in> set (bonds mol)" "numAtoms mol \<le> length at_cds"
    and "1 < getDegree mol (getBeginAtomIdx bond)"
    and "at_cds ! getBeginAtomIdx bond \<noteq> at_cds ! getEndAtomIdx bond"
  shows "bondInsideDoubleBond mol bond at_cds \<noteq> None"
proof -
  let ?a = "getBeginAtomIdx bond" and ?e = "getEndAtomIdx bond"
  have "find (\<lambda>b2. getIdx b2 \<noteq> getIdx bond) (getAtomBonds mol ?a) \<noteq> None"
    using find_other_idx[OF wellFormed_distinct_idx[OF assms(1)]] assms(4)
    by (simp add: getDegree_def)
  then obtain bond2 where f: "find (\<lambda>b2. getIdx b2 \<noteq> getIdx bond) (getAtomBonds mol ?a) = Some bond2"
    by auto
  then have "bond2 \<in> set (getAtomBonds mol ?a)" by (auto simp: find_Some_iff)
  then have b2: "bond2 \<in> set (bonds mol)" by (rule getAtomBonds_subset)
  have r3: "getOtherAtomIdx bond2 ?a < length at_cds"
    using wellFormed_bond_atoms(4)[OF assms(1) b2, of ?a] assms(3) by simp
  have ra: "?a < length at_cds" "?e < length at_cds"
    using wellFormed_bond_atoms(1,2)[OF assms(1,2)] assms(3) by simp_all
  obtain p where "calcInnerPerpendicular (at_cds ! ?e) (at_cds ! ?a)
                    (at_cds ! getOtherAtomIdx bond2 ?a) = Some p"
    using calcInnerPerpendicular_defined[OF assms(5)[symmetric]] by blast
  then show ?thesis
    using f r3 ra assms(4) by (simp add: bondInsideDoubleBond_def Let_def vecAt_def)
qed

lemma bondInsideDoubleBond_unit:
  assumes "bondInsideDoubleBond mol bond at_cds = Some p"
    and "1 < getDegree mol (getBeginAtomIdx bond)"
    and "getBeginAtomIdx bond < length at_cds" "getEndAtomIdx bond < length at_cds"
  shows "unitPerpTo (psub (at_cds ! getEndAtomIdx bond) (at_cds ! getBeginAtomIdx bond)) p"
  using assms
  by (auto simp: bondInsideDoubleBond_def Let_def vecAt_def split: option.splits bind_splits if_splits
      dest: calcInnerPerpendicular_unit)


lemma endOrLinear_False:
  assumes "1 < getDegree mol (getBeginAtomIdx bond)" "1 < getDegree mol (getEndAtomIdx bond)"
    "isLinearAtom mol (getBeginAtomIdx bond) at_cds = Some False"
    "isLinearAtom mol (getEndAtomIdx bond) at_cds = Some False"
  shows "endOrLinear mol bond at_cds = Some False"
  using assms by (simp add: endOrLinear_def)

lemma inner_line_points:
  "padd (psub a (pmul (psub a b) multipleBondTruncation)) (pmul perp (offset * 2))
     = padd (padd a (pmul (psub b a) (3 / 20))) (pmul perp (2 * offset))"
  "padd (padd b (pmul (psub a b) multipleBondTruncation)) (pmul perp (offset * 2))
     = padd (psub b (pmul (psub b a) (3 / 20))) (pmul perp (2 * offset))"
  by (simp_all add: padd_def psub_def pmul_def multipleBondTruncation_def field_simps)

text \<open>
  The side of the perpendicular.  \<open>calcInnerPerpendicular\<close> turns the perpendicular so
  that the third coordinate lies on its side of the line through the first two (or on
  the line).  In a ring the third atom is the other end of the first other bond of the
  ring at the begin atom of the bond, in a chain the other end of the first other bond
  at that atom.
\<close>

lemma find_Some_mem: "find P xs = Some x \<Longrightarrow> x \<in> set xs"
  by (induction xs) (auto split: if_splits)

lemma calcInnerPerpendicular_side:
  assumes "calcInnerPerpendicular cds1 cds2 cds3 = Some p"
  shows "0 \<le> dotProduct p (psub cds3 cds2)" "0 \<le> dotProduct p (psub cds3 cds1)"
proof -
  obtain q where q: "calcPerpendicular cds1 cds2 = Some q"
    and p: "p = (if ptx (psub (psub cds1 cds2) (psub cds2 cds3)) * ptx q
                    + pty (psub (psub cds1 cds2) (psub cds2 cds3)) * pty q < 0
                 then Point2D (ptx q * (-1)) (pty q * (-1)) else q)"
    using assms by (auto simp: calcInnerPerpendicular_def Let_def split: bind_splits)
  have o: "dotProduct q (psub cds1 cds2) = 0"
    using calcPerpendicular_unit[OF q] by (simp add: unitPerpTo_def)
  have e: "ptx (psub (psub cds1 cds2) (psub cds2 cds3)) * ptx q
             + pty (psub (psub cds1 cds2) (psub cds2 cds3)) * pty q
           = dotProduct q (psub cds3 cds2)"
    using o by (cases cds1; cases cds2; cases cds3; cases q)
      (simp add: dotProduct_def psub_def algebra_simps)
  show 2: "0 \<le> dotProduct p (psub cds3 cds2)"
    unfolding p e by (cases q) (auto simp: dotProduct_def)
  have "dotProduct p (psub cds1 cds2) = 0"
    using calcInnerPerpendicular_unit[OF assms] by (simp add: unitPerpTo_def)
  then have "dotProduct p (psub cds3 cds1) = dotProduct p (psub cds3 cds2)"
    by (cases cds1; cases cds2; cases cds3; cases p)
      (simp add: dotProduct_def psub_def algebra_simps)
  then show "0 \<le> dotProduct p (psub cds3 cds1)" using 2 by simp
qed

lemma calc_perp_side:
  assumes "calc_perp mol cds1 cds2 at_cds bond ring = Some (Some p)"
  shows "\<exists>bond2. find (\<lambda>bond2. getIdx bond2 \<noteq> getIdx bond \<and> getIdx bond2 \<in> set ring)
                    (getAtomBonds mol (getBeginAtomIdx bond)) = Some bond2
               \<and> 0 \<le> dotProduct p
                     (psub (at_cds ! getOtherAtomIdx bond2 (getBeginAtomIdx bond)) cds1)"
  using assms calcInnerPerpendicular_side(2)
  by (auto simp: calc_perp_def Let_def vecAt_def split: option.splits bind_splits if_splits)

lemma calc_perp_found:
  assumes "wellFormedMol mol" "numAtoms mol \<le> length at_cds" "cds1 \<noteq> cds2"
    and "find (\<lambda>bond2. getIdx bond2 \<noteq> getIdx bond \<and> getIdx bond2 \<in> set ring)
           (getAtomBonds mol (getBeginAtomIdx bond)) \<noteq> None"
  shows "\<exists>p. calc_perp mol cds1 cds2 at_cds bond ring = Some (Some p)"
proof -
  have "calc_perp mol cds1 cds2 at_cds bond ring \<noteq> None"
    by (rule calc_perp_defined[OF assms(1,2,3)])
  moreover have "calc_perp mol cds1 cds2 at_cds bond ring \<noteq> Some None"
    using assms(4) by (auto simp: calc_perp_def Let_def split: option.splits bind_splits)
  ultimately show ?thesis by (cases "calc_perp mol cds1 cds2 at_cds bond ring") auto
qed

lemma firstRingPerp_first_ok:
  assumes "\<forall>ring \<in> set rings. ring_ok mol bond ring \<noteq> None
             \<and> (\<exists>p. calc_perp mol cds1 cds2 at_cds bond ring = Some (Some p))"
  shows "firstRingPerp mol bond cds1 cds2 at_cds rings
       = (case find (\<lambda>ring. ring_ok mol bond ring = Some True) rings of
            None \<Rightarrow> Some None
          | Some ring \<Rightarrow> calc_perp mol cds1 cds2 at_cds bond ring)"
  using assms
proof (induction rings)
  case Nil
  then show ?case by simp
next
  case (Cons ring rest)
  then obtain ok p where ok: "ring_ok mol bond ring = Some ok"
    and p: "calc_perp mol cds1 cds2 at_cds bond ring = Some (Some p)" by auto
  have ih: "firstRingPerp mol bond cds1 cds2 at_cds rest
       = (case find (\<lambda>ring. ring_ok mol bond ring = Some True) rest of
            None \<Rightarrow> Some None
          | Some ring \<Rightarrow> calc_perp mol cds1 cds2 at_cds bond ring)"
    using Cons by simp
  show ?case by (cases ok) (simp_all add: ok p ih)
qed

lemma bondInsideRing_chosen:
  assumes wf: "wellFormedMol mol" and cov: "numAtoms mol \<le> length at_cds"
    and nd: "cds1 \<noteq> cds2"
    and inr: "numBondRings mol (getIdx bond) \<noteq> 0"
    and cyc: "\<forall>ring \<in> set (bondRings mol). getIdx bond \<in> set ring \<longrightarrow>
               find (\<lambda>bond2. getIdx bond2 \<noteq> getIdx bond \<and> getIdx bond2 \<in> set ring)
                 (getAtomBonds mol (getBeginAtomIdx bond)) \<noteq> None"
  shows "\<exists>p. bondInsideRing mol bond cds1 cds2 at_cds = Some p
           \<and> calc_perp mol cds1 cds2 at_cds bond
                (case find (\<lambda>ring. ring_ok mol bond ring = Some True)
                        (filter (\<lambda>ring. getIdx bond \<in> set ring) (bondRings mol)) of
                   Some ring \<Rightarrow> ring
                 | None \<Rightarrow> hd (filter (\<lambda>ring. getIdx bond \<in> set ring) (bondRings mol)))
              = Some (Some p)"
proof -
  let ?bir = "filter (\<lambda>ring. getIdx bond \<in> set ring) (bondRings mol)"
  have ne: "?bir \<noteq> []" using inr by (simp add: numBondRings_def)
  have all: "\<forall>ring \<in> set ?bir. ring_ok mol bond ring \<noteq> None
             \<and> (\<exists>p. calc_perp mol cds1 cds2 at_cds bond ring = Some (Some p))"
  proof
    fix ring assume r: "ring \<in> set ?bir"
    then have "list_all (\<lambda>i. i < length (bonds mol)) ring"
      using wf by (auto simp: wellFormedMol_def list_all_iff)
    then have 1: "ring_ok mol bond ring \<noteq> None" by (rule ring_ok_defined)
    have "find (\<lambda>bond2. getIdx bond2 \<noteq> getIdx bond \<and> getIdx bond2 \<in> set ring)
                 (getAtomBonds mol (getBeginAtomIdx bond)) \<noteq> None"
      using cyc r by auto
    from calc_perp_found[OF wf cov nd this] 1
    show "ring_ok mol bond ring \<noteq> None
             \<and> (\<exists>p. calc_perp mol cds1 cds2 at_cds bond ring = Some (Some p))" by simp
  qed
  obtain ring rest where rr: "?bir = ring # rest" using ne by (cases ?bir) auto
  have hdp: "\<exists>p. calc_perp mol cds1 cds2 at_cds bond ring = Some (Some p)"
    using all rr by simp
  show ?thesis
  proof (cases "find (\<lambda>ring. ring_ok mol bond ring = Some True) ?bir")
    case None
    then have f: "firstRingPerp mol bond cds1 cds2 at_cds ?bir = Some None"
      by (simp add: firstRingPerp_first_ok[OF all])
    obtain p where p: "calc_perp mol cds1 cds2 at_cds bond ring = Some (Some p)"
      using hdp by blast
    have "bondInsideRing mol bond cds1 cds2 at_cds = Some p"
      unfolding bondInsideRing_def Let_def f by (simp add: rr p)
    then show ?thesis using p None by (simp add: rr)
  next
    case (Some r)
    then have rin: "r \<in> set ?bir" by (rule find_Some_mem)
    then obtain p where p: "calc_perp mol cds1 cds2 at_cds bond r = Some (Some p)"
      using all by blast
    have f: "firstRingPerp mol bond cds1 cds2 at_cds ?bir = Some (Some p)"
      by (simp add: firstRingPerp_first_ok[OF all] Some p)
    show ?thesis
    proof (cases "length ?bir > 1")
      case True
      then have "bondInsideRing mol bond cds1 cds2 at_cds = Some p"
        unfolding bondInsideRing_def Let_def f by simp
      then show ?thesis using p Some by simp
    next
      case False
      then have one: "?bir = [ring]" using rr by (cases rest) auto
      then have "r = ring" using rin by simp
      then have "bondInsideRing mol bond cds1 cds2 at_cds = Some p"
        unfolding bondInsideRing_def Let_def using p one by simp
      then show ?thesis using p Some by simp
    qed
  qed
qed

lemma bondInsideDoubleBond_side:
  assumes "bondInsideDoubleBond mol bond at_cds = Some p"
    and "1 < getDegree mol (getBeginAtomIdx bond)"
    and "getBeginAtomIdx bond < length at_cds"
  shows "\<exists>bond2. find (\<lambda>bond2. getIdx bond2 \<noteq> getIdx bond)
                    (getAtomBonds mol (getBeginAtomIdx bond)) = Some bond2
               \<and> 0 \<le> dotProduct p
                     (psub (at_cds ! getOtherAtomIdx bond2 (getBeginAtomIdx bond))
                           (at_cds ! getBeginAtomIdx bond))"
  using assms calcInnerPerpendicular_side(1)
  by (auto simp: bondInsideDoubleBond_def Let_def vecAt_def
      split: option.splits bind_splits if_splits)

text \<open>
  Claim C5, amended.  For a bond of a well-formed molecule whose two end atoms both
  have degree greater than 1 and are not linear, and whose stereo is not either/any
  (with coordinates for every atom, the two end points passed distinct and the two end
  atoms at distinct coordinates), the computed line pair consists of one line running
  exactly from the first point passed to the second, and a second, parallel line
  displaced along a unit perpendicular by \<^emph>\<open>twice\<close> the offset passed to
  \<open>calcDoubleBondLines\<close> and shortened by exactly 0.15 of the bond vector at each end.
  The perpendicular points to the inside: for a bond in no ring, to the side of the
  bond on which the neighbour lies that the first other bond at the begin atom leads
  to; for a ring bond, to the side on which the ring atom lies that the first other
  bond of the ring at the begin atom leads to, where the ring is the first ring through
  the bond all of whose bonds have the aromaticity flag of the bond, or the first ring
  through the bond when there is none (every ring through the bond having another of
  its bonds at the begin atom, as a ring has).  The side is stated by the scalar product
  of the perpendicular with the vector to that third atom, which is not negative.
\<close>

theorem calcDoubleBondLines_inner_line:
  assumes wf: "wellFormedMol mol" and mem: "bond \<in> set (bonds mol)"
    and cov: "numAtoms mol \<le> length at_cds"
    and deg: "1 < getDegree mol (getBeginAtomIdx bond)" "1 < getDegree mol (getEndAtomIdx bond)"
    and lin: "isLinearAtom mol (getBeginAtomIdx bond) at_cds = Some False"
             "isLinearAtom mol (getEndAtomIdx bond) at_cds = Some False"
    and st: "getBondDir bond \<noteq> EITHERDOUBLE" "getStereo bond \<noteq> STEREOANY"
    and nd: "at1_cds \<noteq> at2_cds"
            "at_cds ! getBeginAtomIdx bond \<noteq> at_cds ! getEndAtomIdx bond"
  shows "\<exists>perp.
      (if numBondRings mol (getIdx bond) \<noteq> 0
       then bondInsideRing mol bond at1_cds at2_cds at_cds
       else bondInsideDoubleBond mol bond at_cds) = Some perp
    \<and> lengthSq perp = 1
    \<and> dotProduct perp
         (if numBondRings mol (getIdx bond) \<noteq> 0 then psub at1_cds at2_cds
          else psub (at_cds ! getEndAtomIdx bond) (at_cds ! getBeginAtomIdx bond)) = 0
    \<and> (numBondRings mol (getIdx bond) = 0 \<longrightarrow>
         (\<exists>bond2. find (\<lambda>bond2. getIdx bond2 \<noteq> getIdx bond)
                     (getAtomBonds mol (getBeginAtomIdx bond)) = Some bond2
                \<and> 0 \<le> dotProduct perp
                      (psub (at_cds ! getOtherAtomIdx bond2 (getBeginAtomIdx bond))
                            (at_cds ! getBeginAtomIdx bond))))
    \<and> (numBondRings mol (getIdx bond) \<noteq> 0
        \<and> (\<forall>ring \<in> set (bondRings mol). getIdx bond \<in> set ring \<longrightarrow>
               find (\<lambda>bond2. getIdx bond2 \<noteq> getIdx bond \<and> getIdx bond2 \<in> set ring)
                 (getAtomBonds mol (getBeginAtomIdx bond)) \<noteq> None) \<longrightarrow>
         (\<exists>bond2. find (\<lambda>bond2. getIdx bond2 \<noteq> getIdx bond
                              \<and> getIdx bond2 \<in> set
                                  (case find (\<lambda>ring. ring_ok mol bond ring = Some True)
                                          (filter (\<lambda>ring. getIdx bond \<in> set ring) (bondRings mol)) of
                                     Some ring \<Rightarrow> ring
                                   | None \<Rightarrow> hd (filter (\<lambda>ring. getIdx bond \<in> set ring)
                                                  (bondRings mol))))
                     (getAtomBonds mol (getBeginAtomIdx bond)) = Some bond2
                \<and> 0 \<le> dotProduct perp
                      (psub (at_cds ! getOtherAtomIdx bond2 (getBeginAtomIdx bond)) at1_cds)))
    \<and> calcDoubleBondLines mol offset bond at1_cds at2_cds at_cds
        = Some (at1_cds, at2_cds,
                padd (padd at1_cds (pmul (psub at2_cds at1_cds) 0.15)) (pmul perp (2 * offset)),
                padd (psub at2_cds (pmul (psub at2_cds at1_cds) 0.15)) (pmul perp (2 * offset)))"
proof -
  let ?inner = "if numBondRings mol (getIdx bond) \<noteq> 0
       then bondInsideRing mol bond at1_cds at2_cds at_cds
       else bondInsideDoubleBond mol bond at_cds"
  let ?ring = "case find (\<lambda>ring. ring_ok mol bond ring = Some True)
                      (filter (\<lambda>ring. getIdx bond \<in> set ring) (bondRings mol)) of
                 Some ring \<Rightarrow> ring
               | None \<Rightarrow> hd (filter (\<lambda>ring. getIdx bond \<in> set ring) (bondRings mol))"
  have e: "endOrLinear mol bond at_cds = Some False"
    by (rule endOrLinear_False[OF deg lin])
  have "?inner \<noteq> None"
    using bondInsideRing_defined[OF wf cov nd(1)] bondInsideDoubleBond_defined[OF wf mem cov deg(1) nd(2)]
    by simp
  then obtain perp where p: "?inner = Some perp" by blast
  have ra: "getBeginAtomIdx bond < length at_cds" "getEndAtomIdx bond < length at_cds"
    using wellFormed_bond_atoms(1,2)[OF wf mem] cov by simp_all
  have u: "unitPerpTo (if numBondRings mol (getIdx bond) \<noteq> 0 then psub at1_cds at2_cds
          else psub (at_cds ! getEndAtomIdx bond) (at_cds ! getBeginAtomIdx bond)) perp"
    using p bondInsideRing_unit bondInsideDoubleBond_unit[OF _ deg(1) ra]
    by (auto split: if_splits)
  have chain: "\<exists>bond2. find (\<lambda>bond2. getIdx bond2 \<noteq> getIdx bond)
                     (getAtomBonds mol (getBeginAtomIdx bond)) = Some bond2
                \<and> 0 \<le> dotProduct perp
                      (psub (at_cds ! getOtherAtomIdx bond2 (getBeginAtomIdx bond))
                            (at_cds ! getBeginAtomIdx bond))"
    if "numBondRings mol (getIdx bond) = 0"
  proof -
    have "bondInsideDoubleBond mol bond at_cds = Some perp" using p that by simp
    then show ?thesis using deg(1) ra(1) by (rule bondInsideDoubleBond_side)
  qed
  have ring: "\<exists>bond2. find (\<lambda>bond2. getIdx bond2 \<noteq> getIdx bond \<and> getIdx bond2 \<in> set ?ring)
                     (getAtomBonds mol (getBeginAtomIdx bond)) = Some bond2
                \<and> 0 \<le> dotProduct perp
                      (psub (at_cds ! getOtherAtomIdx bond2 (getBeginAtomIdx bond)) at1_cds)"
    if inr: "numBondRings mol (getIdx bond) \<noteq> 0"
      and cyc: "\<forall>ring \<in> set (bondRings mol). getIdx bond \<in> set ring \<longrightarrow>
               find (\<lambda>bond2. getIdx bond2 \<noteq> getIdx bond \<and> getIdx bond2 \<in> set ring)
                 (getAtomBonds mol (getBeginAtomIdx bond)) \<noteq> None"
  proof -
    obtain q where q: "bondInsideRing mol bond at1_cds at2_cds at_cds = Some q"
      and c: "calc_perp mol at1_cds at2_cds at_cds bond ?ring = Some (Some q)"
      using bondInsideRing_chosen[OF wf cov nd(1) inr cyc] by blast
    have "q = perp" using p q inr by simp
    then show ?thesis using calc_perp_side[OF c] by simp
  qed
  have l: "calcDoubleBondLines mol offset bond at1_cds at2_cds at_cds
        = Some (at1_cds, at2_cds,
                padd (padd at1_cds (pmul (psub at2_cds at1_cds) 0.15)) (pmul perp (2 * offset)),
                padd (psub at2_cds (pmul (psub at2_cds at1_cds) 0.15)) (pmul perp (2 * offset)))"
    unfolding calcDoubleBondLines_def e using st p
    by (simp add: Let_def inner_line_points split: if_splits)
  have u1: "lengthSq perp = 1"
    and u2: "dotProduct perp
         (if numBondRings mol (getIdx bond) \<noteq> 0 then psub at1_cds at2_cds
          else psub (at_cds ! getEndAtomIdx bond) (at_cds ! getBeginAtomIdx bond)) = 0"
    using u by (simp_all add: unitPerpTo_def)
  have chain': "numBondRings mol (getIdx bond) = 0 \<longrightarrow>
         (\<exists>bond2. find (\<lambda>bond2. getIdx bond2 \<noteq> getIdx bond)
                     (getAtomBonds mol (getBeginAtomIdx bond)) = Some bond2
                \<and> 0 \<le> dotProduct perp
                      (psub (at_cds ! getOtherAtomIdx bond2 (getBeginAtomIdx bond))
                            (at_cds ! getBeginAtomIdx bond)))"
    using chain by blast
  have ring': "numBondRings mol (getIdx bond) \<noteq> 0
        \<and> (\<forall>ring \<in> set (bondRings mol). getIdx bond \<in> set ring \<longrightarrow>
               find (\<lambda>bond2. getIdx bond2 \<noteq> getIdx bond \<and> getIdx bond2 \<in> set ring)
                 (getAtomBonds mol (getBeginAtomIdx bond)) \<noteq> None) \<longrightarrow>
         (\<exists>bond2. find (\<lambda>bond2. getIdx bond2 \<noteq> getIdx bond \<and> getIdx bond2 \<in> set ?ring)
                     (getAtomBonds mol (getBeginAtomIdx bond)) = Some bond2
                \<and> 0 \<le> dotProduct perp
                      (psub (at_cds ! getOtherAtomIdx bond2 (getBeginAtomIdx bond)) at1_cds))"
    using ring by blast
  show ?thesis by (rule exI[of _ perp]) (intro conjI p u1 u2 chain' ring' l)
qed

lemma dieneDoubleBond_fields:
  "getIdx dieneDoubleBond = 1" "getBondDir dieneDoubleBond = NONE"
  "getStereo dieneDoubleBond = STEREONONE" "getBondType dieneDoubleBond = DOUBLE"
  by (simp_all add: dieneDoubleBond_def plainBond_def)

lemma dieneDoubleBond_degrees:
  "getDegree dieneMol (getBeginAtomIdx dieneDoubleBond) = 2"
  "getDegree dieneMol (getEndAtomIdx dieneDoubleBond) = 2"
  by (simp_all add: getDegree_def getAtomBonds_def diene_defs)

lemma dieneDoubleBond_begin_not_linear:
  "isLinearAtom dieneMol (getBeginAtomIdx dieneDoubleBond) dieneCoords = Some False"
  by (simp add: isLinearAtom_def getDegree_def getAtomBonds_def getAtomNeighbors_def diene_defs
      getOtherAtomIdx_def vecAt_def directionVector_def normalize_def psub_def pdiv_def
      plength_def lengthSq_def getBondBetweenAtoms_def dotProduct_def)

lemma dieneDoubleBond_end_not_linear:
  "isLinearAtom dieneMol (getEndAtomIdx dieneDoubleBond) dieneCoords = Some False"
  by (simp add: isLinearAtom_def getDegree_def getAtomBonds_def getAtomNeighbors_def diene_defs
      getOtherAtomIdx_def vecAt_def directionVector_def normalize_def psub_def pdiv_def
      plength_def lengthSq_def getBondBetweenAtoms_def dotProduct_def)

lemma dieneDoubleBond_inside:
  "bondInsideDoubleBond dieneMol dieneDoubleBond dieneCoords = Some (Point2D 0 1)"
  by (simp add: bondInsideDoubleBond_def getDegree_def getAtomBonds_def diene_defs
      getOtherAtomIdx_def vecAt_def calcInnerPerpendicular_def calcPerpendicular_def psub_def
      Let_def)

lemma dieneMol_no_rings: "numBondRings dieneMol i = 0"
  by (simp add: numBondRings_def dieneMol_def)

lemma dieneDoubleBond_lines:
  "calcDoubleBondLines dieneMol (1/10) dieneDoubleBond (Point2D 0 0) (Point2D 1 0) dieneCoords
   = Some (Point2D 0 0, Point2D 1 0, Point2D (3/20) (1/5), Point2D (17/20) (1/5))"
  by (simp add: calcDoubleBondLines_def endOrLinear_def dieneDoubleBond_fields
      dieneDoubleBond_degrees dieneDoubleBond_begin_not_linear dieneDoubleBond_end_not_linear
      dieneDoubleBond_inside dieneMol_no_rings multipleBondTruncation_def padd_def psub_def
      pmul_def Let_def)

text \<open>The double bond \<open>1 = 2\<close> of the four-ring on the unit square.\<close>

lemmas square_defs = squareMol_def squareDoubleBond_def plainBond_def squareCoords_def

lemma wellFormed_squareMol: "wellFormedMol squareMol"
  by (simp add: wellFormedMol_def square_defs upt_rec)

lemma squareDoubleBond_fields:
  "getIdx squareDoubleBond = 1" "getBondDir squareDoubleBond = NONE"
  "getStereo squareDoubleBond = STEREONONE" "getBondType squareDoubleBond = DOUBLE"
  by (simp_all add: squareDoubleBond_def plainBond_def)

lemma squareDoubleBond_degrees:
  "getDegree squareMol (getBeginAtomIdx squareDoubleBond) = 2"
  "getDegree squareMol (getEndAtomIdx squareDoubleBond) = 2"
  by (simp_all add: getDegree_def getAtomBonds_def square_defs)

lemma squareDoubleBond_begin_not_linear:
  "isLinearAtom squareMol (getBeginAtomIdx squareDoubleBond) squareCoords = Some False"
  by (simp add: isLinearAtom_def getDegree_def getAtomBonds_def getAtomNeighbors_def square_defs
      getOtherAtomIdx_def vecAt_def directionVector_def normalize_def psub_def pdiv_def
      plength_def lengthSq_def getBondBetweenAtoms_def dotProduct_def)

lemma squareDoubleBond_end_not_linear:
  "isLinearAtom squareMol (getEndAtomIdx squareDoubleBond) squareCoords = Some False"
  by (simp add: isLinearAtom_def getDegree_def getAtomBonds_def getAtomNeighbors_def square_defs
      getOtherAtomIdx_def vecAt_def directionVector_def normalize_def psub_def pdiv_def
      plength_def lengthSq_def getBondBetweenAtoms_def dotProduct_def)

lemma squareMol_rings: "numBondRings squareMol i = (if i \<in> {0, 1, 2, 3} then 1 else 0)"
  by (simp add: numBondRings_def squareMol_def)

lemma squareDoubleBond_in_ring: "numBondRings squareMol (getIdx squareDoubleBond) = 1"
  by (simp add: squareMol_rings squareDoubleBond_fields)

lemma squareDoubleBond_ring_bond:
  "find (\<lambda>bond2. getIdx bond2 \<noteq> getIdx squareDoubleBond \<and> getIdx bond2 \<in> set [0, 1, 2, 3])
     (getAtomBonds squareMol (getBeginAtomIdx squareDoubleBond)) = Some (plainBond 0 0 1 SINGLE)"
  by (simp add: getAtomBonds_def square_defs)

lemma squareDoubleBond_inside:
  "bondInsideRing squareMol squareDoubleBond (Point2D 1 0) (Point2D 1 1) squareCoords
     = Some (Point2D (-1) 0)"
  by (simp add: bondInsideRing_def calc_perp_def getAtomBonds_def square_defs
      getOtherAtomIdx_def vecAt_def calcInnerPerpendicular_def calcPerpendicular_def psub_def
      Let_def)

lemma squareDoubleBond_lines:
  "calcDoubleBondLines squareMol (1/10) squareDoubleBond (Point2D 1 0) (Point2D 1 1) squareCoords
   = Some (Point2D 1 0, Point2D 1 1, Point2D (4/5) (3/20), Point2D (4/5) (17/20))"
  by (simp add: calcDoubleBondLines_def endOrLinear_def squareDoubleBond_fields
      squareDoubleBond_degrees squareDoubleBond_begin_not_linear squareDoubleBond_end_not_linear
      squareDoubleBond_inside squareMol_rings multipleBondTruncation_def padd_def psub_def
      pmul_def Let_def)


lemma squareDoubleBond_chosen_ring:
  "(case find (\<lambda>ring. ring_ok squareMol squareDoubleBond ring = Some True)
           (filter (\<lambda>ring. getIdx squareDoubleBond \<in> set ring) (bondRings squareMol)) of
      Some ring \<Rightarrow> ring
    | None \<Rightarrow> hd (filter (\<lambda>ring. getIdx squareDoubleBond \<in> set ring) (bondRings squareMol)))
   = [0, 1, 2, 3]"
  by (simp add: square_defs vecAt_def)

lemma squareDoubleBond_ring_closed:
  "\<forall>ring \<in> set (bondRings squareMol). getIdx squareDoubleBond \<in> set ring \<longrightarrow>
     find (\<lambda>bond2. getIdx bond2 \<noteq> getIdx squareDoubleBond \<and> getIdx bond2 \<in> set ring)
       (getAtomBonds squareMol (getBeginAtomIdx squareDoubleBond)) \<noteq> None"
  by (simp add: getAtomBonds_def square_defs)

text \<open>
  Claim C5, as stated: the second line would be offset by the configured multiple-bond
  offset.  The source doubles the offset (\<open>offset *= 2.0\<close>) before it displaces the
  second line.  In the chain \<open>0 - 1 = 2 - 3\<close> the double bond has both ends of degree 2,
  neither linear, no stereo mark; with offset \<open>1/10\<close> and the atoms at \<open>(0, 0)\<close> and
  \<open>(1, 0)\<close> the first line runs from atom to atom and the second runs from
  \<open>(3/20, 1/5)\<close> to \<open>(17/20, 1/5)\<close>: shortened by 0.15 at each end, but \<open>1/5\<close> away from
  the first line, not \<open>1/10\<close>.
\<close>

theorem calcDoubleBondLines_offset_counterexample:
  "getBondType dieneDoubleBond = DOUBLE
   \<and> getDegree dieneMol (getBeginAtomIdx dieneDoubleBond) = 2
   \<and> getDegree dieneMol (getEndAtomIdx dieneDoubleBond) = 2
   \<and> isLinearAtom dieneMol (getBeginAtomIdx dieneDoubleBond) dieneCoords = Some False
   \<and> isLinearAtom dieneMol (getEndAtomIdx dieneDoubleBond) dieneCoords = Some False
   \<and> getBondDir dieneDoubleBond = NONE \<and> getStereo dieneDoubleBond = STEREONONE
   \<and> bondInsideDoubleBond dieneMol dieneDoubleBond dieneCoords = Some (Point2D 0 1)
   \<and> calcDoubleBondLines dieneMol (1/10) dieneDoubleBond (Point2D 0 0) (Point2D 1 0) dieneCoords
       = Some (Point2D 0 0, Point2D 1 0, Point2D (3/20) (1/5), Point2D (17/20) (1/5))
   \<and> Point2D (3/20) (1/5)
       \<noteq> padd (padd (Point2D 0 0) (pmul (psub (Point2D 1 0) (Point2D 0 0)) 0.15))
              (pmul (Point2D 0 1) (1/10))
   \<and> Point2D (17/20) (1/5)
       \<noteq> padd (psub (Point2D 1 0) (pmul (psub (Point2D 1 0) (Point2D 0 0)) 0.15))
              (pmul (Point2D 0 1) (1/10))"
  by (simp add: dieneDoubleBond_fields dieneDoubleBond_degrees dieneDoubleBond_begin_not_linear
      dieneDoubleBond_end_not_linear dieneDoubleBond_inside dieneDoubleBond_lines
      padd_def psub_def pmul_def)

text \<open>
  The theorem at the double bond of the chain \<open>0 - 1 = 2 - 3\<close>, where the second line
  lies on the side of atom 0, and at the double bond \<open>1 = 2\<close> of the four-ring on the
  unit square, drawn from \<open>(1, 0)\<close> to \<open>(1, 1)\<close>: the perpendicular is \<open>(-1, 0)\<close>,
  towards atom 0 and the inside of the ring, and the second line runs from
  \<open>(4/5, 3/20)\<close> to \<open>(4/5, 17/20)\<close>.
\<close>

theorem calcDoubleBondLines_inner_line_witness:
  "wellFormedMol dieneMol \<and> dieneDoubleBond \<in> set (bonds dieneMol)
   \<and> numAtoms dieneMol \<le> length dieneCoords
   \<and> 1 < getDegree dieneMol (getBeginAtomIdx dieneDoubleBond)
   \<and> 1 < getDegree dieneMol (getEndAtomIdx dieneDoubleBond)
   \<and> isLinearAtom dieneMol (getBeginAtomIdx dieneDoubleBond) dieneCoords = Some False
   \<and> isLinearAtom dieneMol (getEndAtomIdx dieneDoubleBond) dieneCoords = Some False
   \<and> getBondDir dieneDoubleBond \<noteq> EITHERDOUBLE \<and> getStereo dieneDoubleBond \<noteq> STEREOANY
   \<and> Point2D 0 0 \<noteq> Point2D 1 0
   \<and> dieneCoords ! getBeginAtomIdx dieneDoubleBond \<noteq> dieneCoords ! getEndAtomIdx dieneDoubleBond
   \<and> numBondRings dieneMol (getIdx dieneDoubleBond) = 0
   \<and> (\<exists>perp bond2.
        bondInsideDoubleBond dieneMol dieneDoubleBond dieneCoords = Some perp
      \<and> lengthSq perp = 1
      \<and> find (\<lambda>bond2. getIdx bond2 \<noteq> getIdx dieneDoubleBond)
           (getAtomBonds dieneMol (getBeginAtomIdx dieneDoubleBond)) = Some bond2
      \<and> 0 \<le> dotProduct perp
            (psub (dieneCoords ! getOtherAtomIdx bond2 (getBeginAtomIdx dieneDoubleBond))
                  (dieneCoords ! getBeginAtomIdx dieneDoubleBond))
      \<and> calcDoubleBondLines dieneMol (1/10) dieneDoubleBond (Point2D 0 0) (Point2D 1 0) dieneCoords
          = Some (Point2D 0 0, Point2D 1 0,
                  padd (padd (Point2D 0 0) (pmul (psub (Point2D 1 0) (Point2D 0 0)) 0.15))
                       (pmul perp (2 * (1/10))),
                  padd (psub (Point2D 1 0) (pmul (psub (Point2D 1 0) (Point2D 0 0)) 0.15))
                       (pmul perp (2 * (1/10)))))
   \<and> wellFormedMol squareMol \<and> squareDoubleBond \<in> set (bonds squareMol)
   \<and> numAtoms squareMol \<le> length squareCoords
   \<and> 1 < getDegree squareMol (getBeginAtomIdx squareDoubleBond)
   \<and> 1 < getDegree squareMol (getEndAtomIdx squareDoubleBond)
   \<and> isLinearAtom squareMol (getBeginAtomIdx squareDoubleBond) squareCoords = Some False
   \<and> isLinearAtom squareMol (getEndAtomIdx squareDoubleBond) squareCoords = Some False
   \<and> getBondDir squareDoubleBond \<noteq> EITHERDOUBLE \<and> getStereo squareDoubleBond \<noteq> STEREOANY
   \<and> Point2D 1 0 \<noteq> Point2D 1 1
   \<and> squareCoords ! getBeginAtomIdx squareDoubleBond
        \<noteq> squareCoords ! getEndAtomIdx squareDoubleBond
   \<and> numBondRings squareMol (getIdx squareDoubleBond) = 1
   \<and> bondRings squareMol = [[0, 1, 2, 3]]
   \<and> (\<exists>perp bond2.
        bondInsideRing squareMol squareDoubleBond (Point2D 1 0) (Point2D 1 1) squareCoords
          = Some perp
      \<and> lengthSq perp = 1
      \<and> find (\<lambda>bond2. getIdx bond2 \<noteq> getIdx squareDoubleBond \<and> getIdx bond2 \<in> set [0, 1, 2, 3])
           (getAtomBonds squareMol (getBeginAtomIdx squareDoubleBond)) = Some bond2
      \<and> 0 \<le> dotProduct perp
            (psub (squareCoords ! getOtherAtomIdx bond2 (getBeginAtomIdx squareDoubleBond))
                  (Point2D 1 0))
      \<and> calcDoubleBondLines squareMol (1/10) squareDoubleBond (Point2D 1 0) (Point2D 1 1)
            squareCoords
          = Some (Point2D 1 0, Point2D 1 1,
                  padd (padd (Point2D 1 0) (pmul (psub (Point2D 1 1) (Point2D 1 0)) 0.15))
                       (pmul perp (2 * (1/10))),
                  padd (psub (Point2D 1 1) (pmul (psub (Point2D 1 1) (Point2D 1 0)) 0.15))
                       (pmul perp (2 * (1/10)))))
   \<and> bondInsideRing squareMol squareDoubleBond (Point2D 1 0) (Point2D 1 1) squareCoords
        = Some (Point2D (-1) 0)
   \<and> calcDoubleBondLines squareMol (1/10) squareDoubleBond (Point2D 1 0) (Point2D 1 1)
        squareCoords
        = Some (Point2D 1 0, Point2D 1 1, Point2D (4/5) (3/20), Point2D (4/5) (17/20))"
proof -
  have h2: "dieneDoubleBond \<in> set (bonds dieneMol)" by (simp add: dieneMol_def)
  have h3: "numAtoms dieneMol \<le> length dieneCoords" by (simp add: dieneMol_def dieneCoords_def)
  have h4: "1 < getDegree dieneMol (getBeginAtomIdx dieneDoubleBond)"
           "1 < getDegree dieneMol (getEndAtomIdx dieneDoubleBond)"
    by (simp_all add: dieneDoubleBond_degrees)
  have h5: "getBondDir dieneDoubleBond \<noteq> EITHERDOUBLE" "getStereo dieneDoubleBond \<noteq> STEREOANY"
    by (simp_all add: dieneDoubleBond_fields)
  have h6: "Point2D 0 0 \<noteq> Point2D 1 0" by simp
  have h7: "dieneCoords ! getBeginAtomIdx dieneDoubleBond
              \<noteq> dieneCoords ! getEndAtomIdx dieneDoubleBond"
    by (simp add: diene_defs)
  have h8: "numBondRings dieneMol (getIdx dieneDoubleBond) = 0" by (rule dieneMol_no_rings)
  have D: "\<exists>perp bond2.
        bondInsideDoubleBond dieneMol dieneDoubleBond dieneCoords = Some perp
      \<and> lengthSq perp = 1
      \<and> find (\<lambda>bond2. getIdx bond2 \<noteq> getIdx dieneDoubleBond)
           (getAtomBonds dieneMol (getBeginAtomIdx dieneDoubleBond)) = Some bond2
      \<and> 0 \<le> dotProduct perp
            (psub (dieneCoords ! getOtherAtomIdx bond2 (getBeginAtomIdx dieneDoubleBond))
                  (dieneCoords ! getBeginAtomIdx dieneDoubleBond))
      \<and> calcDoubleBondLines dieneMol (1/10) dieneDoubleBond (Point2D 0 0) (Point2D 1 0) dieneCoords
          = Some (Point2D 0 0, Point2D 1 0,
                  padd (padd (Point2D 0 0) (pmul (psub (Point2D 1 0) (Point2D 0 0)) 0.15))
                       (pmul perp (2 * (1/10))),
                  padd (psub (Point2D 1 0) (pmul (psub (Point2D 1 0) (Point2D 0 0)) 0.15))
                       (pmul perp (2 * (1/10))))"
    using calcDoubleBondLines_inner_line [OF wellFormed_dieneMol h2 h3 h4 dieneDoubleBond_begin_not_linear
             dieneDoubleBond_end_not_linear h5 h6 h7, of "1/10"]
    unfolding h8 by auto
  have s2: "squareDoubleBond \<in> set (bonds squareMol)" by (simp add: squareMol_def)
  have s3: "numAtoms squareMol \<le> length squareCoords"
    by (simp add: squareMol_def squareCoords_def)
  have s4: "1 < getDegree squareMol (getBeginAtomIdx squareDoubleBond)"
           "1 < getDegree squareMol (getEndAtomIdx squareDoubleBond)"
    by (simp_all add: squareDoubleBond_degrees)
  have s5: "getBondDir squareDoubleBond \<noteq> EITHERDOUBLE" "getStereo squareDoubleBond \<noteq> STEREOANY"
    by (simp_all add: squareDoubleBond_fields)
  have s6: "Point2D 1 0 \<noteq> Point2D 1 1" by simp
  have s7: "squareCoords ! getBeginAtomIdx squareDoubleBond
              \<noteq> squareCoords ! getEndAtomIdx squareDoubleBond"
    by (simp add: square_defs)
  have s8: "numBondRings squareMol (getIdx squareDoubleBond) \<noteq> 0"
    by (simp add: squareDoubleBond_in_ring)
  have s9: "bondRings squareMol = [[0, 1, 2, 3]]" by (simp add: squareMol_def)
  have S: "\<exists>perp bond2.
        bondInsideRing squareMol squareDoubleBond (Point2D 1 0) (Point2D 1 1) squareCoords
          = Some perp
      \<and> lengthSq perp = 1
      \<and> find (\<lambda>bond2. getIdx bond2 \<noteq> getIdx squareDoubleBond \<and> getIdx bond2 \<in> set [0, 1, 2, 3])
           (getAtomBonds squareMol (getBeginAtomIdx squareDoubleBond)) = Some bond2
      \<and> 0 \<le> dotProduct perp
            (psub (squareCoords ! getOtherAtomIdx bond2 (getBeginAtomIdx squareDoubleBond))
                  (Point2D 1 0))
      \<and> calcDoubleBondLines squareMol (1/10) squareDoubleBond (Point2D 1 0) (Point2D 1 1)
            squareCoords
          = Some (Point2D 1 0, Point2D 1 1,
                  padd (padd (Point2D 1 0) (pmul (psub (Point2D 1 1) (Point2D 1 0)) 0.15))
                       (pmul perp (2 * (1/10))),
                  padd (psub (Point2D 1 1) (pmul (psub (Point2D 1 1) (Point2D 1 0)) 0.15))
                       (pmul perp (2 * (1/10))))"
    using calcDoubleBondLines_inner_line [OF wellFormed_squareMol s2 s3 s4 squareDoubleBond_begin_not_linear
             squareDoubleBond_end_not_linear s5 s6 s7, of "1/10"]
      s8 squareDoubleBond_ring_closed
    unfolding squareDoubleBond_chosen_ring by auto
  show ?thesis
    by (intro conjI wellFormed_dieneMol h2 h3 h4 h5 h6 h7 h8 D dieneDoubleBond_begin_not_linear
        dieneDoubleBond_end_not_linear wellFormed_squareMol s2 s3 s4 s5 s6 s7 s9 S
        squareDoubleBond_begin_not_linear squareDoubleBond_end_not_linear
        squareDoubleBond_in_ring squareDoubleBond_inside squareDoubleBond_lines)
qed

section \<open>The query bond "single or double"\<close>





























section \<open>The fallback of the annotation placement\<close>

lemma scanPositions_kept:
  assumes "\<forall>pos \<in> set ps. 1 \<le> clash (getAtomCoords d (ptx pos, pty pos))"
    and "clash_score lw \<le> 1"
  shows "scanPositions clash d ps annot lw
       = (False, (if ps = [] then annot else annot\<lparr>rect := (rect annot)\<lparr>rtrans := last ps\<rparr>\<rparr>), lw)"
  using assms
proof (induction ps arbitrary: annot)
  case Nil
  then show ?case by simp
next
  case (Cons p ps)
  have s: "1 \<le> clash (getAtomCoords d (ptx p, pty p))" using Cons.prems by simp
  have n: "\<not> clash (getAtomCoords d (ptx p, pty p)) < clash_score lw"
    using s Cons.prems(2) by linarith
  have z: "clash (getAtomCoords d (ptx p, pty p)) \<noteq> 0" using s by linarith
  have ih: "scanPositions clash d ps (annot\<lparr>rect := (rect annot)\<lparr>rtrans := p\<rparr>\<rparr>) lw
       = (False, (if ps = [] then annot\<lparr>rect := (rect annot)\<lparr>rtrans := p\<rparr>\<rparr>
                  else annot\<lparr>rect := (rect annot)\<lparr>rtrans := last ps\<rparr>\<rparr>), lw)"
    using Cons.IH[of "annot\<lparr>rect := (rect annot)\<lparr>rtrans := p\<rparr>\<rparr>"] Cons.prems by simp
  show ?case using n z ih by (simp add: Let_def)
qed

lemma scanPositions_first_recorded:
  assumes all: "\<forall>pos \<in> set (p0 # ps). 1 \<le> clash (getAtomCoords d (ptx pos, pty pos))"
    and first: "clash (getAtomCoords d (ptx p0, pty p0)) < 100"
    and k: "clash_score (rect annot) \<le> 1"
  shows "scanPositions clash d (p0 # ps) annot (defaultStringRect\<lparr>clash_score := 100\<rparr>)
       = (False, annot\<lparr>rect := (rect annot)\<lparr>rtrans := last (p0 # ps)\<rparr>\<rparr>,
          (rect annot)\<lparr>rtrans := p0\<rparr>)"
proof -
  have z: "clash (getAtomCoords d (ptx p0, pty p0)) \<noteq> 0" using all by auto
  have r: "scanPositions clash d ps (annot\<lparr>rect := (rect annot)\<lparr>rtrans := p0\<rparr>\<rparr>)
             ((rect annot)\<lparr>rtrans := p0\<rparr>)
       = (False, (if ps = [] then annot\<lparr>rect := (rect annot)\<lparr>rtrans := p0\<rparr>\<rparr>
                  else annot\<lparr>rect := (rect annot)\<lparr>rtrans := last ps\<rparr>\<rparr>),
          (rect annot)\<lparr>rtrans := p0\<rparr>)"
    using scanPositions_kept[of ps clash d "(rect annot)\<lparr>rtrans := p0\<rparr>"
            "annot\<lparr>rect := (rect annot)\<lparr>rtrans := p0\<rparr>\<rparr>"] all k by simp
  show ?thesis using z first r by (simp add: Let_def)
qed

lemma doesNoteClash_range:
  "0 \<le> doesNoteClash nb al on p" "doesNoteClash nb al on p \<le> 3"
  by (simp_all add: doesNoteClash_def)

lemma atomNotePositions_first:
  "\<exists>rest. atomNotePositions c False a
      = Point2D (ptx c + cos a * (1/4)) (pty c + sin a * (1/4)) # rest"
  by (simp add: atomNotePositions_def upt_conv_Cons Let_def)

lemma atomNotePositions_member:
  assumes "i < 12"
  shows "Point2D (ptx c + cos (a + real i * 30 * pi / 180) * (1/4))
                 (pty c + sin (a + real i * 30 * pi / 180) * (1/4))
         \<in> set (atomNotePositions c False a)"
  using assms by (auto simp: atomNotePositions_def Let_def)


lemma calcAtomAnnotationPosition_all_clash:
  assumes "atom_idx < length at_cds" "atom_idx < length atom_syms" "atom_syms ! atom_idx = []"
    and "\<forall>pos \<in> set (atomNotePositions (at_cds ! atom_idx) False start_ang).
           doesNoteClash nb al on (getAtomCoords d (ptx pos, pty pos)) \<noteq> 0"
    and "clash_score (rect annot) \<le> 1"
  shows "calcAtomAnnotationPosition (doesNoteClash nb al on) d at_cds atom_syms atom_idx
           start_ang annot
       = Some (annot\<lparr>rect := (rect annot)\<lparr>rtrans :=
            Point2D (ptx (at_cds ! atom_idx) + cos start_ang * (1/4))
                    (pty (at_cds ! atom_idx) + sin start_ang * (1/4))\<rparr>\<rparr>)"
proof -
  let ?c = "at_cds ! atom_idx"
  let ?p0 = "Point2D (ptx ?c + cos start_ang * (1/4)) (pty ?c + sin start_ang * (1/4))"
  obtain rest where ps: "atomNotePositions ?c False start_ang = ?p0 # rest"
    using atomNotePositions_first by blast
  have all: "\<forall>pos \<in> set (?p0 # rest).
          1 \<le> doesNoteClash nb al on (getAtomCoords d (ptx pos, pty pos))"
    using assms(4) doesNoteClash_range(1)[of nb al on] unfolding ps
    by (metis int_one_le_iff_zero_less order_le_less)
  have first: "doesNoteClash nb al on (getAtomCoords d (ptx ?p0, pty ?p0)) < 100"
    using doesNoteClash_range(2)[of nb al on "getAtomCoords d (ptx ?p0, pty ?p0)"] by linarith
  show ?thesis
    unfolding calcAtomAnnotationPosition_def
    using assms(1,2,3) scanPositions_first_recorded[OF all first assms(5)]
    by (simp add: vecAt_def ps Let_def)
qed

lemma crowdedClash_nonzero: "crowdedClash p \<noteq> 0"
  by (simp add: crowdedClash_def doesNoteClash_def)

lemma atom_note_example:
  "calcAtomAnnotationPosition crowdedClash initialScaleState twoAtomCoords noSymbols 0 0 exampleNote
     = Some (exampleNote\<lparr>rect := defaultStringRect\<lparr>rtrans := Point2D (1/4) 0\<rparr>\<rparr>)"
proof -
  have "calcAtomAnnotationPosition (doesNoteClash noteNearBond noteRightOfAtom (\<lambda>note_pos. True))
          initialScaleState twoAtomCoords noSymbols 0 0 exampleNote
     = Some (exampleNote\<lparr>rect := (rect exampleNote)\<lparr>rtrans :=
            Point2D (ptx (twoAtomCoords ! 0) + cos 0 * (1/4))
                    (pty (twoAtomCoords ! 0) + sin 0 * (1/4))\<rparr>\<rparr>)"
    by (rule calcAtomAnnotationPosition_all_clash)
       (simp_all add: twoAtomCoords_def noSymbols_def doesNoteClash_def exampleNote_def
          defaultStringRect_def)
  then show ?thesis
    by (simp add: crowdedClash_def twoAtomCoords_def exampleNote_def)
qed

lemma atom_note_example_scores:
  "crowdedClash (getAtomCoords initialScaleState (1/4, 0)) = 2"
  "crowdedClash (getAtomCoords initialScaleState (0, 1/4)) = 1"
  "crowdedClash (getAtomCoords initialScaleState (-1/4, 0)) = 3"
  by (simp_all add: crowdedClash_def doesNoteClash_def noteNearBond_def noteRightOfAtom_def
      getAtomCoords_def initialScaleState_def panelHeight_def Let_def)

lemma atom_note_example_members:
  "Point2D 0 (1/4) \<in> set (atomNotePositions (Point2D 0 0) False 0)"
  "Point2D (-1/4) 0 \<in> set (atomNotePositions (Point2D 0 0) False 0)"
  using atomNotePositions_member[of 3 "Point2D 0 0" 0] atomNotePositions_member[of 6 "Point2D 0 0" 0]
  by simp_all


lemma twoAtomBond_geometry:
  "calcPerpendicular (Point2D 0 0) (Point2D 0 1) = Some (Point2D 1 0)"
  "directionVector (Point2D 0 0) (Point2D 0 1) = Some (Point2D 0 1)"
  "plength (psub (Point2D 0 0) (Point2D 0 1)) = 1"
  by (simp_all add: calcPerpendicular_def directionVector_def normalize_def psub_def pdiv_def
      plength_def lengthSq_def Let_def)

lemma bond_note_example_positions:
  "bondNotePositions (Point2D 0 0) (Point2D 1 0) (Point2D 0 1) 1 (3/20) False
   = [Point2D (3/20) (1/2), Point2D (-3/20) (1/2), Point2D (3/10) (1/2), Point2D (-3/10) (1/2),
      Point2D (9/20) (1/2), Point2D (-9/20) (1/2), Point2D (3/5) (1/2), Point2D (-3/5) (1/2),
      Point2D (3/4) (1/2), Point2D (-3/4) (1/2),
      Point2D (3/20) (33/100), Point2D (-3/20) (33/100), Point2D (3/10) (33/100), Point2D (-3/10) (33/100),
      Point2D (9/20) (33/100), Point2D (-9/20) (33/100), Point2D (3/5) (33/100), Point2D (-3/5) (33/100),
      Point2D (3/4) (33/100), Point2D (-3/4) (33/100),
      Point2D (3/20) (33/50), Point2D (-3/20) (33/50), Point2D (3/10) (33/50), Point2D (-3/10) (33/50),
      Point2D (9/20) (33/50), Point2D (-9/20) (33/50), Point2D (3/5) (33/50), Point2D (-3/5) (33/50),
      Point2D (3/4) (33/50), Point2D (-3/4) (33/50),
      Point2D (3/20) (1/4), Point2D (-3/20) (1/4), Point2D (3/10) (1/4), Point2D (-3/10) (1/4),
      Point2D (9/20) (1/4), Point2D (-9/20) (1/4), Point2D (3/5) (1/4), Point2D (-3/5) (1/4),
      Point2D (3/4) (1/4), Point2D (-3/4) (1/4),
      Point2D (3/20) (3/4), Point2D (-3/20) (3/4), Point2D (3/10) (3/4), Point2D (-3/10) (3/4),
      Point2D (9/20) (3/4), Point2D (-9/20) (3/4), Point2D (3/5) (3/4), Point2D (-3/5) (3/4),
      Point2D (3/4) (3/4), Point2D (-3/4) (3/4)]"
  by (simp add: bondNotePositions_def padd_def psub_def pmul_def Let_def)

lemma crowdedBondClash_nonzero: "1 \<le> crowdedBondClash p" "crowdedBondClash p < 100"
  by (simp_all add: crowdedBondClash_def doesNoteClash_def)


lemma bond_note_example:
  "calcAnnotationPositionBond crowdedBondClash initialScaleState twoAtomCoords (3/20) twoAtomBond
      exampleNote
   = Some (exampleNote\<lparr>rect := defaultStringRect\<lparr>rtrans := Point2D (-3/4) (3/4)\<rparr>\<rparr>)"
proof -
  let ?ps = "bondNotePositions (Point2D 0 0) (Point2D 1 0) (Point2D 0 1) 1 (3/20) False"
  have sc: "scanPositions crowdedBondClash initialScaleState ?ps exampleNote
              (defaultStringRect\<lparr>clash_score := 100\<rparr>)
          = (False, exampleNote\<lparr>rect := (rect exampleNote)\<lparr>rtrans := last ?ps\<rparr>\<rparr>,
             (rect exampleNote)\<lparr>rtrans := Point2D (3/20) (1/2)\<rparr>)"
    unfolding bond_note_example_positions
    by (rule scanPositions_first_recorded)
       (simp_all add: crowdedBondClash_nonzero exampleNote_def defaultStringRect_def)
  have l: "last ?ps = Point2D (-3/4) (3/4)" by (simp add: bond_note_example_positions)
  have nt: "note_text exampleNote \<noteq> []" "rect exampleNote = defaultStringRect"
    by (simp_all add: exampleNote_def)
  show ?thesis
    unfolding calcAnnotationPositionBond_def
    by (simp add: twoAtomCoords_def twoAtomBond_def plainBond_def vecAt_def twoAtomBond_geometry
        bondTypeAboveSingle_def sc l nt Let_def)
qed

lemma bond_note_example_scores:
  "crowdedBondClash (getAtomCoords initialScaleState (-3/4, 3/4)) = 2"
  "crowdedBondClash (getAtomCoords initialScaleState (3/20, 1/2)) = 3"
  "crowdedBondClash (getAtomCoords initialScaleState (3/4, 1/2)) = 1"
  by (simp_all add: crowdedBondClash_def doesNoteClash_def noteFarRight_def noteFarLeft_def
      getAtomCoords_def initialScaleState_def panelHeight_def Let_def)


text \<open>
  Claim C3.  When no tried position is clash-free, the position finally stored should
  be the tried position of lowest clash severity (bond clash the most severe, label
  clash next, annotation clash the least).  The source does not achieve that.  For an
  atom note \<open>least_worst_rect = annot.rect_\<close> copies the rectangle of the annotation and
  with it that rectangle's own \<open>clash_score_\<close> (0 as constructed) over the 100, so no
  later position can be "less bad" and the first tried position is kept.  For a bond
  note \<open>least_worst_rect\<close> is never assigned back, so the last tried position is kept.

  The atom note of the example is tried first at \<open>(1/4, 0)\<close>, where it clashes with an
  atom label (score 2), and that position is stored, although \<open>(-1/4, 0)\<close> among the
  tried positions only clashes with an annotation (score 3) and \<open>(0, 1/4)\<close> has the
  lowest score (1, a bond clash).  The bond note is stored at the last tried position
  \<open>(-3/4, 3/4)\<close>, a label clash (score 2), although the first tried position
  \<open>(3/20, 1/2)\<close> only clashes with an annotation (score 3) and \<open>(3/4, 1/2)\<close> has score 1.
\<close>

theorem annotation_fallback_example:
  "calcAtomAnnotationPosition crowdedClash initialScaleState twoAtomCoords noSymbols 0 0
      exampleNote
     = Some (exampleNote\<lparr>rect := defaultStringRect\<lparr>rtrans := Point2D (1/4) 0\<rparr>\<rparr>)
   \<and> crowdedClash (getAtomCoords initialScaleState (1/4, 0)) = 2
   \<and> Point2D (-1/4) 0 \<in> set (atomNotePositions (Point2D 0 0) False 0)
   \<and> crowdedClash (getAtomCoords initialScaleState (-1/4, 0)) = 3
   \<and> Point2D 0 (1/4) \<in> set (atomNotePositions (Point2D 0 0) False 0)
   \<and> crowdedClash (getAtomCoords initialScaleState (0, 1/4)) = 1
   \<and> calcAnnotationPositionBond crowdedBondClash initialScaleState twoAtomCoords (3/20)
        twoAtomBond exampleNote
     = Some (exampleNote\<lparr>rect := defaultStringRect\<lparr>rtrans := Point2D (-3/4) (3/4)\<rparr>\<rparr>)
   \<and> crowdedBondClash (getAtomCoords initialScaleState (-3/4, 3/4)) = 2
   \<and> Point2D (3/20) (1/2)
        \<in> set (bondNotePositions (Point2D 0 0) (Point2D 1 0) (Point2D 0 1) 1 (3/20) False)
   \<and> crowdedBondClash (getAtomCoords initialScaleState (3/20, 1/2)) = 3
   \<and> Point2D (3/4) (1/2)
        \<in> set (bondNotePositions (Point2D 0 0) (Point2D 1 0) (Point2D 0 1) 1 (3/20) False)
   \<and> crowdedBondClash (getAtomCoords initialScaleState (3/4, 1/2)) = 1"
  using atom_note_example atom_note_example_scores atom_note_example_members
    bond_note_example bond_note_example_scores
  by (simp add: bond_note_example_positions)


section \<open>The render context across \<open>drawMolecule\<close>\<close>

text \<open>
  No step of the set-up changes the index of the active molecule or the depth of a
  per-molecule stack: the scale calculation works on the scale fields, the extraction
  overwrites the active entries, the atom regions only draw.
\<close>

lemma sameContext_refl: "sameContext s s"
  by (simp add: sameContext_def)

lemma sameContext_trans: "sameContext s t \<Longrightarrow> sameContext t u \<Longrightarrow> sameContext s u"
  by (simp add: sameContext_def)

lemma stackDepths_push: "stackDepths (pushDrawDetails s) = map Suc (stackDepths s)"
  "activeMolIdx (pushDrawDetails s) = activeMolIdx s + 1"
  by (simp_all add: stackDepths_def pushDrawDetails_def)

lemma sameContext_expandByFootprints: "sameContext d (expandByFootprints d fs)"
  by (simp add: sameContext_def expandByFootprints_def stackDepths_def split: prod.splits)

lemma sameContext_adjustOnce: "sameContext d (adjustOnce labels radicals sa notes d)"
proof -
  let ?d1 = "expandByFootprints d (labels d)"
  let ?d2 = "expandByFootprints ?d1 (radicals ?d1)"
  have 12: "sameContext d ?d2"
    using sameContext_expandByFootprints sameContext_trans by blast
  have 3: "sameContext ?d2 (adjustScaleForAnnotation ?d2 notes)"
    unfolding adjustScaleForAnnotation_def by (rule sameContext_expandByFootprints)
  show ?thesis
    unfolding adjustOnce_def Let_def using 12 3 sameContext_trans by (cases "sa \<and> notes \<noteq> []") auto
qed

lemma sameContext_scale_update: "sameContext d (d\<lparr>scale := v\<rparr>)"
  by (simp add: sameContext_def stackDepths_def)

lemma sameContext_fitLoop_step:
  assumes ih: "\<And>w h x y. f w h x = Some y \<Longrightarrow> sameContext x y"
    and a: "\<And>x. sameContext x (adjust x)"
    and b: "(if 1 / 10000 < scale d
      then let d1 = adjust d; old_scale = scale d1;
               d2 = d1\<lparr>scale := fitScale width height d1\<rparr>
           in if \<bar>scale d2 - old_scale\<bar> < 1 / 10 then Some d2
              else f width height d2
      else Some d) = Some d'"
  shows "sameContext d d'"
proof -
  let ?d2 = "(adjust d)\<lparr>scale := fitScale width height (adjust d)\<rparr>"
  have s2: "sameContext d ?d2"
    using a[of d] sameContext_scale_update[of "adjust d"] sameContext_trans by blast
  show ?thesis
  proof (cases "scale d > 1/10000")
    case False
    then show ?thesis using b by (simp add: sameContext_refl)
  next
    case True
    show ?thesis
    proof (cases "\<bar>scale ?d2 - scale (adjust d)\<bar> < 1/10")
      case True
      then have "d' = ?d2" using b \<open>scale d > 1/10000\<close> by (simp add: Let_def)
      then show ?thesis using s2 by simp
    next
      case False
      then have "f width height ?d2 = Some d'"
        using b \<open>scale d > 1/10000\<close> by (simp add: Let_def)
      then have "sameContext ?d2 d'" by (rule ih)
      then show ?thesis using s2 sameContext_trans by blast
    qed
  qed
qed

lemma sameContext_fitLoop_aux:
  "fitLoop adjust width height d = Some d' \<Longrightarrow>
     (\<forall>x. sameContext x (adjust x)) \<longrightarrow> sameContext d d'"
proof (rule fitLoop.raw_induct
         [where P = "\<lambda>adjust width height d d'.
                       (\<forall>x. sameContext x (adjust x)) \<longrightarrow> sameContext d d'"])
  fix f adjust width height d d'
  assume ih: "\<And>a w h x y. f a w h x = Some y \<Longrightarrow>
                 (\<forall>z. sameContext z (a z)) \<longrightarrow> sameContext x y"
    and b: "(if 1 / 10000 < scale d
      then let d1 = adjust d; old_scale = scale d1;
               d2 = d1\<lparr>scale := fitScale width height d1\<rparr>
           in if \<bar>scale d2 - old_scale\<bar> < 1 / 10 then Some d2
              else f adjust width height d2
      else Some d) = Some d'"
  show "(\<forall>x. sameContext x (adjust x)) \<longrightarrow> sameContext d d'"
  proof
    assume a: "\<forall>x. sameContext x (adjust x)"
    show "sameContext d d'"
    proof (rule sameContext_fitLoop_step[where f = "f adjust" and adjust = adjust])
      show "\<And>w h x y. f adjust w h x = Some y \<Longrightarrow> sameContext x y"
        using ih a by blast
      show "\<And>x. sameContext x (adjust x)" using a by simp
      show "(if 1 / 10000 < scale d
      then let d1 = adjust d; old_scale = scale d1;
               d2 = d1\<lparr>scale := fitScale width height d1\<rparr>
           in if \<bar>scale d2 - old_scale\<bar> < 1 / 10 then Some d2
              else f adjust width height d2
      else Some d) = Some d'" by (rule b)
    qed
  qed
qed

lemma sameContext_calculateScale:
  assumes "calculateScale opts labels radicals sa notes width height cds pre post d = Some d'"
  shows "sameContext d d'"
proof -
  let ?d1 = "initialSpans d (boundingBox cds pre post)"
  let ?d2 = "?d1\<lparr>scale := fitScale width height ?d1\<rparr>"
  obtain d3 where f: "fitLoop (adjustOnce labels radicals sa notes) width height ?d2 = Some d3"
    and r: "d' = finalScale opts width height d3"
    using assms by (auto simp: calculateScale_def Let_def split: option.splits)
  have 1: "sameContext d ?d2"
    by (simp add: sameContext_def stackDepths_def initialSpans_def Let_def split: prod.splits)
  have 2: "sameContext ?d2 d3"
    using sameContext_fitLoop_aux[OF f] sameContext_adjustOnce by blast
  have 3: "sameContext d3 d'"
    by (simp add: r sameContext_def stackDepths_def finalScale_def applyPadding_def
        centrePicture_def Let_def)
  show ?thesis using 1 2 3 sameContext_trans by blast
qed


lemma sameContext_storeExtracted: "sameContext s (storeExtracted x s)"
  by (simp add: sameContext_def stackDepths_def storeExtracted_def Let_def)

lemma sameContext_setupDrawMolecule:
  assumes "setupDrawMolecule C opts mol width height s = Inr (m, s')"
  shows "sameContext s s'"
proof -
  let ?s1 = "s\<lparr>scale := 1, x_trans := 0, y_trans := 0, x_offset := 0, y_offset := 0,
                 x_min := 0, y_min := 0\<rparr>"
  let ?s2 = "if activeMolIdx ?s1 = 0 \<and> clearBackground opts
             then ?s1\<lparr>canvas := canvas ?s1 @ [ClearDrawing]\<rparr> else ?s1"
  let ?s3 = "storeExtracted (extractAll C (prepare C mol)) ?s2"
  let ?s4 = "?s3\<lparr>scale := scale s, x_trans := x_trans s, y_trans := y_trans s,
                  x_offset := x_offset s, y_offset := y_offset s,
                  x_min := x_min s, y_min := y_min s\<rparr>"
  have 1: "sameContext s ?s1" by (simp add: sameContext_def stackDepths_def)
  have 2: "sameContext ?s1 ?s2" by (simp add: sameContext_def stackDepths_def)
  have 3: "sameContext ?s2 ?s3" by (rule sameContext_storeExtracted)
  have 4: "sameContext ?s3 ?s4" by (simp add: sameContext_def stackDepths_def)
  have 14: "sameContext s ?s4" using 1 2 3 4 sameContext_trans by blast
  show ?thesis
  proof (cases "getNumConformers (prepare C mol) = 0")
    case True
    then have "s' = ?s1" using assms by (simp add: setupDrawMolecule_def Let_def)
    then show ?thesis using 1 by simp
  next
    case False
    note nc = this
    show ?thesis
    proof (cases "activeMolIdx ?s4 = 0 \<and> needs_scale ?s4")
      case False
      then have "s' = ?s4"
        using assms nc by (auto simp: setupDrawMolecule_def Let_def split: if_splits)
      then show ?thesis using 14 by simp
    next
      case True
      then obtain s5 where
        c: "calculateScale (ScaleOptions.truncate opts) (labelFootprints C)
              (radicalFootprints C) (supportsAnnotations C)
              (annotations_stack ?s4 ! nat (activeMolIdx ?s4)) width height
              (at_cds_stack ?s4 ! nat (activeMolIdx ?s4))
              (pre_shapes_stack ?s4 ! nat (activeMolIdx ?s4))
              (post_shapes_stack ?s4 ! nat (activeMolIdx ?s4)) ?s4 = Some s5"
        and e: "s' = s5\<lparr>needs_scale := False\<rparr>"
        using assms nc
        by (auto simp: setupDrawMolecule_def Let_def split: if_splits option.splits)
      have "sameContext ?s4 s5" using sameContext_calculateScale[OF c] .
      moreover have "sameContext s5 s'" by (simp add: e sameContext_def stackDepths_def)
      ultimately show ?thesis using 14 sameContext_trans by blast
    qed
  qed
qed

lemma sameContext_drawRegions:
  "drawRegions regions s = Inr s' \<Longrightarrow> sameContext s s'"
proof (induction regions arbitrary: s)
  case Nil
  then show ?case by (simp add: sameContext_refl)
next
  case (Cons region rest)
  show ?case
  proof (cases "length region > 1")
    case False
    then show ?thesis using Cons by simp
  next
    case True
    then obtain minv maxv where
      r: "drawRegions rest (s\<lparr>canvas := canvas s @ [SetColour (DrawColour 0.8 0.8 0.8)]
                                 @ drawRect s minv maxv\<rparr>) = Inr s'"
      using Cons.prems by (auto split: option.splits)
    have "sameContext s (s\<lparr>canvas := canvas s @ [SetColour (DrawColour 0.8 0.8 0.8)]
                                 @ drawRect s minv maxv\<rparr>)"
      by (simp add: sameContext_def stackDepths_def)
    then show ?thesis using Cons.IH[OF r] sameContext_trans by blast
  qed
qed

lemma sameContext_setupMoleculeDraw:
  assumes "setupMoleculeDraw C opts mol s = Inr (m, s')"
  shows "sameContext s s'"
proof -
  obtain s1 where a: "setupDrawMolecule C opts mol (panel_width s) (drawHeight s) s = Inr (m, s1)"
    and b: "drawRegions (atomRegions opts)
              (if includeAtomTags opts then s1\<lparr>canvas := canvas s1 @ [TagAtoms]\<rparr> else s1) = Inr s'"
    using assms by (auto simp: setupMoleculeDraw_def Let_def split: sum.splits)
  have "sameContext s1 (if includeAtomTags opts then s1\<lparr>canvas := canvas s1 @ [TagAtoms]\<rparr> else s1)"
    by (simp add: sameContext_def stackDepths_def)
  then show ?thesis
    using sameContext_setupDrawMolecule[OF a] sameContext_drawRegions[OF b] sameContext_trans
    by blast
qed

text \<open>
  A molecule without conformer after the preparation, with no atom region of more than
  one atom: the call returns after the push and the reset of scale and translation at
  the head of \<open>setupDrawMolecule\<close>; only \<open>tagAtoms\<close> may have been called.
\<close>

lemma noCoordsMol_conformers: "getNumConformers (prepare plainCollaborators noCoordsMol) = 0"
  by (simp add: getNumConformers_def plainCollaborators_def noCoordsMol_def)

lemma drawRegions_small:
  "list_all (\<lambda>region. length region \<le> 1) regions \<Longrightarrow> drawRegions regions s = Inr s"
  by (induction regions) auto

lemma drawMolecule_no_conformer:
  assumes "getNumConformers (prepare C mol) = 0"
    and "list_all (\<lambda>region. length region \<le> 1) (atomRegions opts)"
  shows "drawMolecule C opts mol highlight_atoms s
       = Inr ((pushDrawDetails s)
               \<lparr>scale := 1, x_trans := 0, y_trans := 0, x_offset := 0, y_offset := 0,
                x_min := 0, y_min := 0,
                canvas := canvas s @ (if includeAtomTags opts then [TagAtoms] else [])\<rparr>)"
  using assms
  by (simp add: drawMolecule_def setupMoleculeDraw_def setupDrawMolecule_def Let_def
      drawRegions_small pushDrawDetails_def)

text \<open>
  The scale calculation of a molecule without label, radical or annotation footprints:
  the loop ends after one round, since the footprints add nothing to the box.
\<close>

lemma fitScale_scale_update: "fitScale w h (d\<lparr>scale := v\<rparr>) = fitScale w h d"
  by (simp add: fitScale_def)

lemma fitLoop_fixed:
  assumes "\<And>x. adjust x = x"
  shows "fitLoop adjust w h (d\<lparr>scale := fitScale w h d\<rparr>) = Some (d\<lparr>scale := fitScale w h d\<rparr>)"
  by (subst fitLoop.simps) (simp add: assms fitScale_scale_update Let_def)

lemma adjustOnce_no_footprints: "adjustOnce (\<lambda>s. []) (\<lambda>s. []) sa [] x = x"
  by (simp add: adjustOnce_def expandByFootprints_def Let_def)

lemma calculateScale_no_footprints:
  "calculateScale opts (\<lambda>s. []) (\<lambda>s. []) sa [] w h cds pre post d
   = Some (finalScale opts w h
            ((initialSpans d (boundingBox cds pre post))
               \<lparr>scale := fitScale w h (initialSpans d (boundingBox cds pre post))\<rparr>))"
  by (simp add: calculateScale_def Let_def fitLoop_fixed[OF adjustOnce_no_footprints])

lemma initialSpans_keeps:
  fixes d :: MolDraw2D
  shows "activeMolIdx (initialSpans d b) = activeMolIdx d"
    "at_cds_stack (initialSpans d b) = at_cds_stack d"
    "pre_shapes_stack (initialSpans d b) = pre_shapes_stack d"
    "canvas (initialSpans d b) = canvas d"
    "fill_polys (initialSpans d b) = fill_polys d"
  by (simp_all add: initialSpans_def Let_def split: prod.splits)

lemma finalScale_keeps:
  fixes d :: MolDraw2D
  shows "activeMolIdx (finalScale opts w h d) = activeMolIdx d"
    "at_cds_stack (finalScale opts w h d) = at_cds_stack d"
    "pre_shapes_stack (finalScale opts w h d) = pre_shapes_stack d"
    "canvas (finalScale opts w h d) = canvas d"
    "fill_polys (finalScale opts w h d) = fill_polys d"
  by (simp_all add: finalScale_def applyPadding_def centrePicture_def Let_def)

lemma length_dieneCoords: "length dieneCoords = 4"
  by (simp add: dieneCoords_def)

lemma drawMolecule_dieneMol:
  "\<exists>s'. drawMolecule plainCollaborators defaultOptions dieneMol None freshDrawer = Inr s'
        \<and> canvas s' = [ClearDrawing, Call ''doContinuousHighlighting'',
                        DrawBond 0 0 1, DrawBond 1 1 2, DrawBond 2 2 3,
                        Call ''finishMoleculeDraw'', SetLineWidth 2, Call ''updateMetadata'']"
proof -
  have c: "conformers dieneMol = [dieneCoords]" "prepare plainCollaborators dieneMol = dieneMol"
    by (simp_all add: dieneMol_def plainCollaborators_def)
  have b: "map (\<lambda>(bond, this_idx, nbr_idx). DrawBond (getIdx bond) this_idx nbr_idx)
             (drawBonds dieneMol (length dieneCoords))
           = [DrawBond 0 0 1, DrawBond 1 1 2, DrawBond 2 2 3]"
    unfolding length_dieneCoords drawBonds_dieneMol
    by (simp add: plainBond_def dieneDoubleBond_def)
  show ?thesis
    by (simp add: drawMolecule_def setupMoleculeDraw_def setupDrawMolecule_def Let_def c b
      plainCollaborators_def[THEN arg_cong, of extractAll]
      plainCollaborators_def[THEN arg_cong, of labelFootprints]
      plainCollaborators_def[THEN arg_cong, of radicalFootprints]
      defaultOptions_def pushDrawDetails_def freshDrawer_def
      getNumConformers_def hasRoom_def storeExtracted_def
      calculateScale_no_footprints drawHeight_def ScaleOptions.truncate_def
      activeEntry_def vecAt_def finalScale_keeps initialSpans_keeps)
qed

text \<open>
  Claim C2, as stated: after any call of \<open>drawMolecule\<close> returns, also by the early
  return for a molecule without conformer, the depths of the per-molecule stacks and
  \<open>activeMolIdx_\<close> are what they were before the call.  It fails on a freshly
  constructed drawer and a molecule without conformer: the call returns the state
  \<open>pushDrawDetails\<close> made, \<open>activeMolIdx_\<close> has gone from \<open>-1\<close> to \<open>0\<close> and each of the
  seven stacks from depth 0 to depth 1.
\<close>

theorem drawMolecule_context_counterexample:
  "drawMolecule plainCollaborators defaultOptions noCoordsMol None freshDrawer
     = Inr (pushDrawDetails freshDrawer)
   \<and> activeMolIdx freshDrawer = -1
   \<and> activeMolIdx (pushDrawDetails freshDrawer) = 0
   \<and> stackDepths freshDrawer = [0, 0, 0, 0, 0, 0, 0]
   \<and> stackDepths (pushDrawDetails freshDrawer) = [1, 1, 1, 1, 1, 1, 1]"
  by (simp add: drawMolecule_no_conformer[OF noCoordsMol_conformers] defaultOptions_def
      pushDrawDetails_def freshDrawer_def stackDepths_def)

text \<open>
  Claim C2, amended: whenever a call of \<open>drawMolecule\<close> returns, by the early return
  for a molecule without conformer or at its end, the context pushed on entry is still
  there: \<open>activeMolIdx_\<close> and the depth of each of the seven per-molecule stacks
  (\<open>at_cds_\<close>, \<open>atomic_nums_\<close>, \<open>atom_syms_\<close>, \<open>annotations_\<close>, \<open>pre_shapes_\<close>,
  \<open>post_shapes_\<close>, \<open>radicals_\<close>) are exactly one more than before the call.
\<close>

theorem drawMolecule_keeps_pushed_context:
  assumes "drawMolecule C opts mol highlight_atoms s = Inr s'"
  shows "activeMolIdx s' = activeMolIdx s + 1 \<and> stackDepths s' = map Suc (stackDepths s)"
proof -
  obtain m s2 where a: "setupMoleculeDraw C opts mol (pushDrawDetails s) = Inr (m, s2)"
    using assms by (auto simp: drawMolecule_def Let_def split: sum.splits)
  have 2: "sameContext (pushDrawDetails s) s2" by (rule sameContext_setupMoleculeDraw[OF a])
  have "sameContext s2 s'"
    using assms a
    by (auto simp: drawMolecule_def Let_def sameContext_def stackDepths_def
        split: if_splits option.splits)
  then have "sameContext (pushDrawDetails s) s'" using 2 sameContext_trans by blast
  then show ?thesis by (simp add: sameContext_def stackDepths_push)
qed

text \<open>
  The theorem at the complete pass over the chain \<open>0-1=2-3\<close> on a freshly constructed
  drawer: the call returns, the three bonds are drawn, and the drawer is left with
  \<open>activeMolIdx_ = 0\<close> and seven stacks of depth 1.
\<close>

theorem drawMolecule_keeps_pushed_context_witness:
  "\<exists>s'. drawMolecule plainCollaborators defaultOptions dieneMol None freshDrawer = Inr s'
        \<and> canvas s' = [ClearDrawing, Call ''doContinuousHighlighting'',
                        DrawBond 0 0 1, DrawBond 1 1 2, DrawBond 2 2 3,
                        Call ''finishMoleculeDraw'', SetLineWidth 2, Call ''updateMetadata'']
        \<and> activeMolIdx freshDrawer = -1 \<and> activeMolIdx s' = 0
        \<and> stackDepths freshDrawer = [0, 0, 0, 0, 0, 0, 0]
        \<and> stackDepths s' = [1, 1, 1, 1, 1, 1, 1]"
proof -
  obtain s' where
    r: "drawMolecule plainCollaborators defaultOptions dieneMol None freshDrawer = Inr s'"
    and c: "canvas s' = [ClearDrawing, Call ''doContinuousHighlighting'',
                        DrawBond 0 0 1, DrawBond 1 1 2, DrawBond 2 2 3,
                        Call ''finishMoleculeDraw'', SetLineWidth 2, Call ''updateMetadata'']"
    using drawMolecule_dieneMol by blast
  have f: "activeMolIdx freshDrawer = -1" "stackDepths freshDrawer = [0, 0, 0, 0, 0, 0, 0]"
    by (simp_all add: freshDrawer_def stackDepths_def)
  have "activeMolIdx s' = 0 \<and> stackDepths s' = [1, 1, 1, 1, 1, 1, 1]"
    using drawMolecule_keeps_pushed_context[OF r] by (simp add: f)
  then show ?thesis using r c f by blast
qed

section \<open>A molecule without coordinates\<close>

text \<open>
  Claim C9: for every molecule that has no conformer after the preparation,
  \<open>drawMolecule\<close> returns without drawing and without an error.  With the atom region
  \<open>[0, 1]\<close> in the options it does not: \<open>setupDrawMolecule\<close> has returned before the
  coordinates were extracted, so the coordinate array of the active molecule is the empty
  one \<open>pushDrawDetails\<close> made, and the loop over the atom regions in \<open>setupMoleculeDraw\<close>
  reads its entry \<open>region[0]\<close>, out of range, on the way to \<open>drawRect\<close>.
  (Without an atom region of more than one atom the call is the no-op of
  \<open>drawMolecule_no_conformer\<close>.)
\<close>

theorem drawMolecule_no_conformer_region_read:
  "getNumConformers (prepare plainCollaborators noCoordsMol) = 0
   \<and> atomRegions regionOptions = [[0, 1]]
   \<and> drawMolecule plainCollaborators regionOptions noCoordsMol None freshDrawer
       = Inl UndefinedRead"
  by (simp add: drawMolecule_def setupMoleculeDraw_def setupDrawMolecule_def Let_def
      noCoordsMol_conformers regionOptions_def defaultOptions_def pushDrawDetails_def
      freshDrawer_def activeEntry_def vecAt_def regionBox_def)

end
